theory Spec2Isabelle
  imports Main "HOL-Library.Word"
begin

section \<open>Wire types shared by the RPC handlers\<close>

text \<open>
  The handlers of the proxy (\<^verbatim>\<open>package proxy\<close>, the second half of
  \<^verbatim>\<open>proxy_metrics.go\<close>) are embedded as state-passing functions. A Go \<^verbatim>\<open>error\<close> is a
  \<open>string option\<close>: \<open>None\<close> is \<^verbatim>\<open>nil\<close>, \<open>Some m\<close> is an error whose
  \<^verbatim>\<open>Error()\<close> is \<open>m\<close>.
\<close>

type_synonym go_error = "string option"

datatype StateCode =
  StateCode_Initializing | StateCode_Healthy | StateCode_Abnormal | StateCode_StandBy

datatype ErrorCode =
  ErrorCode_Success | ErrorCode_UnexpectedError | ErrorCode_Other nat

datatype MsgType =
  MsgType_Undefined | MsgType_DropCollection | MsgType_Insert | MsgType_Delete
  | MsgType_Search | MsgType_Retrieve | MsgType_Other nat

record Status =
  ErrorCode :: ErrorCode
  Reason :: string

text \<open>Labels of the metric vectors and keys of the rate collector.\<close>

datatype msg_label = InsertLabel | DeleteLabel | SearchLabel | QueryLabel

datatype call_label = TotalLabel | AbandonLabel | FailLabel | SuccessLabel

datatype RateType =
  RateType_DMLInsert | RateType_DMLDelete | RateType_DQLSearch | RateType_DQLQuery

datatype rate_key = RateType_String RateType | ReadResultThroughput

section \<open>Messages and tasks\<close>

text \<open>
  Only the fields the handlers read or write are kept; column payloads
  (\<^verbatim>\<open>FieldsData\<close>, placeholder groups) are copied through untouched by the source and are
  left out. \<^verbatim>\<open>proto.Size\<close> belongs to the protobuf library, so every handler that
  measures a message takes the size function as a parameter.
\<close>

record InsertRequest =
  ir_DbName :: string
  ir_CollectionName :: string
  ir_PartitionName :: string
  ir_HashKeys :: "32 word list"
  ir_NumRows :: "32 word"

record DeleteRequest =
  dr_DbName :: string
  dr_CollectionName :: string
  dr_PartitionName :: string
  dr_Expr :: string
  dr_HashKeys :: "32 word list"

record SearchRequest =
  sr_DbName :: string
  sr_CollectionName :: string
  sr_PartitionNames :: "string list"
  sr_Nq :: int
  sr_TravelTimestamp :: "64 word"
  sr_GuaranteeTimestamp :: "64 word"

record QueryRequest =
  qr_DbName :: string
  qr_CollectionName :: string
  qr_PartitionNames :: "string list"
  qr_Expr :: string
  qr_OutputFields :: "string list"
  qr_TravelTimestamp :: "64 word"
  qr_GuaranteeTimestamp :: "64 word"

record VectorIDs =
  vi_CollectionName :: string
  vi_FieldName :: string
  vi_PartitionNames :: "string list"

record MutationResult =
  mr_Status :: Status
  mr_ErrIndex :: "32 word list"
  mr_InsertCnt :: "64 word"

record SearchResults =
  sres_Status :: Status
  sres_NumQueries :: int

record QueryResults =
  qres_Status :: Status
  qres_FieldsData :: "string list"
  qres_CollectionName :: string

record insertTask =
  it_MsgType :: MsgType
  it_MsgID :: int
  it_SourceID :: int
  it_HashValues :: "32 word list"
  it_CollectionName :: string
  it_PartitionName :: string
  it_NumRows :: "64 word"

record deleteTask =
  dt_MsgType :: MsgType
  dt_MsgID :: int
  dt_HashValues :: "32 word list"
  dt_deleteExpr :: string
  dt_DbName :: string
  dt_CollectionName :: string
  dt_PartitionName :: string

record searchTask =
  st_MsgType :: MsgType
  st_SourceID :: int
  st_ReqID :: int
  st_request :: SearchRequest

record queryTask =
  qt_MsgType :: MsgType
  qt_SourceID :: int
  qt_ReqID :: int
  qt_request :: QueryRequest

text \<open>
  The tasks of the DDL queue wrap their request unchanged; they are told apart by the
  method name of the handler that built them.
\<close>

datatype task =
  DdTask string
  | InsertTask insertTask
  | DeleteTask deleteTask
  | SearchTask searchTask
  | QueryTask queryTask

datatype queue = ddQueue | dmQueue | dqQueue

text \<open>
  The scheduler itself (\<^verbatim>\<open>node.sched\<close>) is not part of this file. A handler sees it
  through two calls, \<^verbatim>\<open>Enqueue\<close> and \<^verbatim>\<open>WaitToFinish\<close>; every call is appended to
  the \<open>sched\<close> log of the state, and what the calls answer for the task at hand is the
  \<open>taskRun\<close> argument: the error of \<^verbatim>\<open>Enqueue\<close>, the error of
  \<^verbatim>\<open>WaitToFinish\<close>, and the task's result slot afterwards (a pointer, \<open>None\<close> is
  \<^verbatim>\<open>nil\<close>).
\<close>

datatype sched_call = Enqueue queue task | WaitToFinish task

record 'r taskRun =
  enqueue :: go_error
  waitToFinish :: go_error
  result :: "'r option"

section \<open>The proxy and the package-level collectors\<close>

record Params =
  NodeID :: int
  DefaultPartitionName :: string

text \<open>
  \<open>stateCode\<close> is \<^verbatim>\<open>node.stateCode\<close>; \<open>sched\<close> is the log of scheduler calls;
  \<open>rateCol\<close> logs \<^verbatim>\<open>rateCol.Add(key, amount)\<close>; the three metric fields log the
  increments of \<^verbatim>\<open>metrics.ProxyReceiveBytes\<close>, \<^verbatim>\<open>metrics.ProxyReadReqSendBytes\<close>
  and \<^verbatim>\<open>metrics.ProxyFunctionCall\<close>. Each log grows at its end. Logging, tracing
  spans, the latency histograms and the two vector counters are not modelled.
\<close>

record Proxy =
  stateCode :: StateCode
  params :: Params
  sched :: "sched_call list"
  rateCol :: "(rate_key \<times> int) list"
  ProxyReceiveBytes :: "(msg_label \<times> int) list"
  ProxyReadReqSendBytes :: "int list"
  ProxyFunctionCall :: "(string \<times> call_label) list"

definition checkHealthy :: "Proxy \<Rightarrow> bool" where
  "checkHealthy node = (stateCode node = StateCode_Healthy)"

definition unhealthyStatus :: Status where
  "unhealthyStatus = \<lparr>ErrorCode = ErrorCode_UnexpectedError, Reason = ''proxy not healthy''\<rparr>"

definition rateCol_Add :: "rate_key \<Rightarrow> int \<Rightarrow> Proxy \<Rightarrow> Proxy" where
  "rateCol_Add k v node = node\<lparr>rateCol := rateCol node @ [(k, v)]\<rparr>"

definition ProxyReceiveBytes_Add :: "msg_label \<Rightarrow> int \<Rightarrow> Proxy \<Rightarrow> Proxy" where
  "ProxyReceiveBytes_Add l v node = node\<lparr>ProxyReceiveBytes := ProxyReceiveBytes node @ [(l, v)]\<rparr>"

definition ProxyReadReqSendBytes_Add :: "int \<Rightarrow> Proxy \<Rightarrow> Proxy" where
  "ProxyReadReqSendBytes_Add v node =
     node\<lparr>ProxyReadReqSendBytes := ProxyReadReqSendBytes node @ [v]\<rparr>"

definition ProxyFunctionCall_Inc :: "string \<Rightarrow> call_label \<Rightarrow> Proxy \<Rightarrow> Proxy" where
  "ProxyFunctionCall_Inc method l node =
     node\<lparr>ProxyFunctionCall := ProxyFunctionCall node @ [(method, l)]\<rparr>"

definition sched_Enqueue :: "queue \<Rightarrow> task \<Rightarrow> Proxy \<Rightarrow> Proxy" where
  "sched_Enqueue q t node = node\<lparr>sched := sched node @ [Enqueue q t]\<rparr>"

definition task_WaitToFinish :: "task \<Rightarrow> Proxy \<Rightarrow> Proxy" where
  "task_WaitToFinish t node = node\<lparr>sched := sched node @ [WaitToFinish t]\<rparr>"

text \<open>
  The status the handlers build from an error:
  \<^verbatim>\<open>&commonpb.Status{ErrorCode: commonpb.ErrorCode_UnexpectedError, Reason: err.Error()}\<close>.
\<close>

definition failStatus :: "string \<Rightarrow> Status" where
  "failStatus msg = \<lparr>ErrorCode = ErrorCode_UnexpectedError, Reason = msg\<rparr>"

section \<open>The handlers of the DDL queue\<close>

text \<open>
  A handler either builds a response around a status (every other field zero) or hands
  back the result pointer of its task.
\<close>

datatype 'r reply = Built Status | TaskResult "'r option"

text \<open>
  CreateCollection, DropCollection, HasCollection, LoadCollection, ReleaseCollection,
  DescribeCollection, GetStatistics, GetCollectionStatistics, ShowCollections,
  AlterCollection, CreatePartition, DropPartition, HasPartition, LoadPartitions,
  ReleasePartitions, GetPartitionStatistics, ShowPartitions, CreateIndex, DropIndex,
  GetIndexBuildProgress, GetIndexState, CreateAlias, DropAlias and AlterAlias share one
  body, up to the method name and the response type: health check, the call counter,
  \<^verbatim>\<open>ddQueue.Enqueue\<close>, \<^verbatim>\<open>WaitToFinish\<close>, the task's result.
\<close>

definition ddHandler :: "string \<Rightarrow> 'r taskRun \<Rightarrow> Proxy \<Rightarrow> 'r reply \<times> go_error \<times> Proxy" where
  "ddHandler method run node =
     (if \<not> checkHealthy node then (Built unhealthyStatus, None, node)
      else
        let node = ProxyFunctionCall_Inc method TotalLabel node;
            t = DdTask method;
            node = sched_Enqueue ddQueue t node
        in case enqueue run of
             Some err \<Rightarrow>
               (Built (failStatus err), None, ProxyFunctionCall_Inc method AbandonLabel node)
           | None \<Rightarrow>
               let node = task_WaitToFinish t node
               in (case waitToFinish run of
                     Some err \<Rightarrow>
                       (Built (failStatus err), None, ProxyFunctionCall_Inc method FailLabel node)
                   | None \<Rightarrow>
                       (TaskResult (result run), None,
                        ProxyFunctionCall_Inc method SuccessLabel node)))"

text \<open>
  DescribeIndex differs in the branch of a failed wait: the error code is taken from the
  task's result when there is one.
\<close>

definition DescribeIndex ::
  "('r \<Rightarrow> Status) \<Rightarrow> 'r taskRun \<Rightarrow> Proxy \<Rightarrow> 'r reply \<times> go_error \<times> Proxy" where
  "DescribeIndex statusOf run node =
     (if \<not> checkHealthy node then (Built unhealthyStatus, None, node)
      else
        let method = ''DescribeIndex'';
            node = ProxyFunctionCall_Inc method TotalLabel node;
            t = DdTask method;
            node = sched_Enqueue ddQueue t node
        in case enqueue run of
             Some err \<Rightarrow>
               (Built (failStatus err), None, ProxyFunctionCall_Inc method AbandonLabel node)
           | None \<Rightarrow>
               let node = task_WaitToFinish t node
               in (case waitToFinish run of
                     Some err \<Rightarrow>
                       (let errCode = (case result run of
                                        None \<Rightarrow> ErrorCode_UnexpectedError
                                      | Some r \<Rightarrow> ErrorCode (statusOf r))
                        in (Built \<lparr>ErrorCode = errCode, Reason = err\<rparr>, None,
                            ProxyFunctionCall_Inc method FailLabel node))
                   | None \<Rightarrow>
                       (TaskResult (result run), None,
                        ProxyFunctionCall_Inc method SuccessLabel node)))"

text \<open>
  Flush builds its response first, with \<^verbatim>\<open>ErrorCode_UnexpectedError\<close> and an empty
  reason, and fills in the reason on each failure.
\<close>

definition Flush :: "'r taskRun \<Rightarrow> Proxy \<Rightarrow> 'r reply \<times> go_error \<times> Proxy" where
  "Flush run node =
     (let resp = \<lparr>ErrorCode = ErrorCode_UnexpectedError, Reason = ''''\<rparr>
      in if \<not> checkHealthy node
         then (Built (resp\<lparr>Reason := ''proxy is not healthy''\<rparr>), None, node)
         else
           let t = DdTask ''Flush'';
               method = ''Flush'';
               node = ProxyFunctionCall_Inc method TotalLabel node;
               node = sched_Enqueue ddQueue t node
           in case enqueue run of
                Some err \<Rightarrow>
                  (Built (resp\<lparr>Reason := err\<rparr>), None,
                   ProxyFunctionCall_Inc method AbandonLabel node)
              | None \<Rightarrow>
                  let node = task_WaitToFinish t node
                  in (case waitToFinish run of
                        Some err \<Rightarrow>
                          (Built (resp\<lparr>ErrorCode := ErrorCode_UnexpectedError, Reason := err\<rparr>),
                           None, ProxyFunctionCall_Inc method FailLabel node)
                      | None \<Rightarrow>
                          (TaskResult (result run), None,
                           ProxyFunctionCall_Inc method SuccessLabel node)))"


definition CreateCollection :: "'r taskRun \<Rightarrow> Proxy \<Rightarrow> 'r reply \<times> go_error \<times> Proxy" where
  "CreateCollection = ddHandler ''CreateCollection''"

definition DropCollection :: "'r taskRun \<Rightarrow> Proxy \<Rightarrow> 'r reply \<times> go_error \<times> Proxy" where
  "DropCollection = ddHandler ''DropCollection''"

definition HasCollection :: "'r taskRun \<Rightarrow> Proxy \<Rightarrow> 'r reply \<times> go_error \<times> Proxy" where
  "HasCollection = ddHandler ''HasCollection''"

definition LoadCollection :: "'r taskRun \<Rightarrow> Proxy \<Rightarrow> 'r reply \<times> go_error \<times> Proxy" where
  "LoadCollection = ddHandler ''LoadCollection''"

definition ReleaseCollection :: "'r taskRun \<Rightarrow> Proxy \<Rightarrow> 'r reply \<times> go_error \<times> Proxy" where
  "ReleaseCollection = ddHandler ''ReleaseCollection''"

definition DescribeCollection :: "'r taskRun \<Rightarrow> Proxy \<Rightarrow> 'r reply \<times> go_error \<times> Proxy" where
  "DescribeCollection = ddHandler ''DescribeCollection''"

definition GetStatistics :: "'r taskRun \<Rightarrow> Proxy \<Rightarrow> 'r reply \<times> go_error \<times> Proxy" where
  "GetStatistics = ddHandler ''GetStatistics''"

definition GetCollectionStatistics ::
  "'r taskRun \<Rightarrow> Proxy \<Rightarrow> 'r reply \<times> go_error \<times> Proxy" where
  "GetCollectionStatistics = ddHandler ''GetCollectionStatistics''"

definition ShowCollections :: "'r taskRun \<Rightarrow> Proxy \<Rightarrow> 'r reply \<times> go_error \<times> Proxy" where
  "ShowCollections = ddHandler ''ShowCollections''"

definition AlterCollection :: "'r taskRun \<Rightarrow> Proxy \<Rightarrow> 'r reply \<times> go_error \<times> Proxy" where
  "AlterCollection = ddHandler ''AlterCollection''"

definition CreatePartition :: "'r taskRun \<Rightarrow> Proxy \<Rightarrow> 'r reply \<times> go_error \<times> Proxy" where
  "CreatePartition = ddHandler ''CreatePartition''"

definition DropPartition :: "'r taskRun \<Rightarrow> Proxy \<Rightarrow> 'r reply \<times> go_error \<times> Proxy" where
  "DropPartition = ddHandler ''DropPartition''"

definition HasPartition :: "'r taskRun \<Rightarrow> Proxy \<Rightarrow> 'r reply \<times> go_error \<times> Proxy" where
  "HasPartition = ddHandler ''HasPartition''"

definition LoadPartitions :: "'r taskRun \<Rightarrow> Proxy \<Rightarrow> 'r reply \<times> go_error \<times> Proxy" where
  "LoadPartitions = ddHandler ''LoadPartitions''"

definition ReleasePartitions :: "'r taskRun \<Rightarrow> Proxy \<Rightarrow> 'r reply \<times> go_error \<times> Proxy" where
  "ReleasePartitions = ddHandler ''ReleasePartitions''"

definition GetPartitionStatistics ::
  "'r taskRun \<Rightarrow> Proxy \<Rightarrow> 'r reply \<times> go_error \<times> Proxy" where
  "GetPartitionStatistics = ddHandler ''GetPartitionStatistics''"

definition ShowPartitions :: "'r taskRun \<Rightarrow> Proxy \<Rightarrow> 'r reply \<times> go_error \<times> Proxy" where
  "ShowPartitions = ddHandler ''ShowPartitions''"

definition CreateIndex :: "'r taskRun \<Rightarrow> Proxy \<Rightarrow> 'r reply \<times> go_error \<times> Proxy" where
  "CreateIndex = ddHandler ''CreateIndex''"

definition DropIndex :: "'r taskRun \<Rightarrow> Proxy \<Rightarrow> 'r reply \<times> go_error \<times> Proxy" where
  "DropIndex = ddHandler ''DropIndex''"

definition GetIndexBuildProgress ::
  "'r taskRun \<Rightarrow> Proxy \<Rightarrow> 'r reply \<times> go_error \<times> Proxy" where
  "GetIndexBuildProgress = ddHandler ''GetIndexBuildProgress''"

definition GetIndexState :: "'r taskRun \<Rightarrow> Proxy \<Rightarrow> 'r reply \<times> go_error \<times> Proxy" where
  "GetIndexState = ddHandler ''GetIndexState''"

definition CreateAlias :: "'r taskRun \<Rightarrow> Proxy \<Rightarrow> 'r reply \<times> go_error \<times> Proxy" where
  "CreateAlias = ddHandler ''CreateAlias''"

definition DropAlias :: "'r taskRun \<Rightarrow> Proxy \<Rightarrow> 'r reply \<times> go_error \<times> Proxy" where
  "DropAlias = ddHandler ''DropAlias''"

definition AlterAlias :: "'r taskRun \<Rightarrow> Proxy \<Rightarrow> 'r reply \<times> go_error \<times> Proxy" where
  "AlterAlias = ddHandler ''AlterAlias''"

text \<open>The 24 handlers of the shared body, each with its method name.\<close>

definition ddHandlers ::
  "(string \<times> ('r taskRun \<Rightarrow> Proxy \<Rightarrow> 'r reply \<times> go_error \<times> Proxy)) list" where
  "ddHandlers =
     [(''CreateCollection'', CreateCollection), (''DropCollection'', DropCollection),
      (''HasCollection'', HasCollection), (''LoadCollection'', LoadCollection),
      (''ReleaseCollection'', ReleaseCollection), (''DescribeCollection'', DescribeCollection),
      (''GetStatistics'', GetStatistics),
      (''GetCollectionStatistics'', GetCollectionStatistics),
      (''ShowCollections'', ShowCollections), (''AlterCollection'', AlterCollection),
      (''CreatePartition'', CreatePartition), (''DropPartition'', DropPartition),
      (''HasPartition'', HasPartition), (''LoadPartitions'', LoadPartitions),
      (''ReleasePartitions'', ReleasePartitions),
      (''GetPartitionStatistics'', GetPartitionStatistics),
      (''ShowPartitions'', ShowPartitions), (''CreateIndex'', CreateIndex),
      (''DropIndex'', DropIndex), (''GetIndexBuildProgress'', GetIndexBuildProgress),
      (''GetIndexState'', GetIndexState), (''CreateAlias'', CreateAlias),
      (''DropAlias'', DropAlias), (''AlterAlias'', AlterAlias)]"

section \<open>Insert and Delete\<close>

text \<open>
  The loop of \<^verbatim>\<open>constructFailedResponse\<close> and of \<^verbatim>\<open>setErrorIndex\<close>:
  \<^verbatim>\<open>for i := uint32(0); i < numRows; i++ { errIndex[i] = i }\<close>, on a slice made with
  \<^verbatim>\<open>make([]uint32, numRows)\<close>. The counter cannot wrap, since \<open>i < numRows\<close> when it
  is incremented.
\<close>

function fillErrIndex :: "32 word \<Rightarrow> 32 word \<Rightarrow> 32 word list \<Rightarrow> 32 word list" where
  "fillErrIndex i numRows errIndex =
     (if i < numRows then fillErrIndex (i + 1) numRows (errIndex[unat i := i]) else errIndex)"
  by pat_completeness auto
termination
proof (relation "measure (\<lambda>(i, numRows, errIndex). unat numRows - unat i)")
  show "wf (measure (\<lambda>(i, numRows, errIndex). unat numRows - unat i))"
    by simp
next
  fix i numRows :: "32 word" and errIndex :: "32 word list"
  assume less: "i < numRows"
  have "unat numRows < 2 ^ 32"
    using unsigned_less [of numRows] by simp
  moreover from less have below: "unat i < unat numRows"
    by (simp add: word_less_nat_alt)
  ultimately have "unat i + unat (1::32 word) < 2 ^ LENGTH(32)"
    by simp
  then have "unat (i + 1) = unat i + unat (1::32 word)"
    by (simp only: unat_add_lem)
  with below show "((i + 1, numRows, errIndex[unat i := i]), (i, numRows, errIndex))
      \<in> measure (\<lambda>(i, numRows, errIndex). unat numRows - unat i)"
    by simp
qed

declare fillErrIndex.simps [simp del]

definition makeErrIndex :: "32 word \<Rightarrow> 32 word list" where
  "makeErrIndex numRows = fillErrIndex 0 numRows (replicate (unat numRows) 0)"

definition constructFailedResponse :: "InsertRequest \<Rightarrow> string \<Rightarrow> MutationResult" where
  "constructFailedResponse request err =
     (let numRows = ir_NumRows request;
          errIndex = makeErrIndex numRows
      in \<lparr>mr_Status = \<lparr>ErrorCode = ErrorCode_UnexpectedError, Reason = err\<rparr>,
          mr_ErrIndex = errIndex, mr_InsertCnt = 0\<rparr>)"

text \<open>
  Insert returns a \<^verbatim>\<open>MutationResult\<close> it built, or the task's result after writing
  \<^verbatim>\<open>ErrIndex\<close> and \<^verbatim>\<open>InsertCnt\<close> into it. The result of the model is \<open>None\<close>
  where the source dereferences a \<^verbatim>\<open>nil\<close> result (\<^verbatim>\<open>it.result.Status\<close>) and panics.
  \<^verbatim>\<open>Enqueue\<close> writes the task's \<^verbatim>\<open>MsgID\<close> and timestamps on the scheduler's side; the
  log keeps the task as the handler built it.
\<close>

definition Insert ::
  "(InsertRequest \<Rightarrow> int) \<Rightarrow> MutationResult taskRun \<Rightarrow> InsertRequest \<Rightarrow> Proxy
     \<Rightarrow> (MutationResult \<times> go_error \<times> Proxy) option" where
  "Insert protoSize run request node =
     (if \<not> checkHealthy node
      then Some (\<lparr>mr_Status = unhealthyStatus, mr_ErrIndex = [], mr_InsertCnt = 0\<rparr>, None, node)
      else
        let method = ''Insert'';
            receiveSize = protoSize request;
            node = rateCol_Add (RateType_String RateType_DMLInsert) receiveSize node;
            node = ProxyReceiveBytes_Add InsertLabel receiveSize node;
            node = ProxyFunctionCall_Inc method TotalLabel node;
            it = \<lparr>it_MsgType = MsgType_Insert, it_MsgID = 0,
                  it_SourceID = NodeID (params node),
                  it_HashValues = ir_HashKeys request,
                  it_CollectionName = ir_CollectionName request,
                  it_PartitionName = ir_PartitionName request,
                  it_NumRows = ucast (ir_NumRows request)\<rparr>;
            it = (if length (it_PartitionName it) \<le> 0
                  then it\<lparr>it_PartitionName := DefaultPartitionName (params node)\<rparr>
                  else it);
            node = sched_Enqueue dmQueue (InsertTask it) node
        in case enqueue run of
             Some err \<Rightarrow>
               Some (constructFailedResponse request err, None,
                     ProxyFunctionCall_Inc method AbandonLabel node)
           | None \<Rightarrow>
               let node = task_WaitToFinish (InsertTask it) node
               in (case waitToFinish run of
                     Some err \<Rightarrow>
                       Some (constructFailedResponse request err, None,
                             ProxyFunctionCall_Inc method FailLabel node)
                   | None \<Rightarrow>
                       (case result run of
                          None \<Rightarrow> None
                        | Some res \<Rightarrow>
                            let res = (if ErrorCode (mr_Status res) \<noteq> ErrorCode_Success
                                       then res\<lparr>mr_ErrIndex := makeErrIndex (ir_NumRows request)\<rparr>
                                       else res);
                                res = res\<lparr>mr_InsertCnt := ucast (ir_NumRows request)\<rparr>;
                                node = ProxyFunctionCall_Inc method SuccessLabel node
                            in Some (res, None, node))))"

definition Delete ::
  "(DeleteRequest \<Rightarrow> int) \<Rightarrow> MutationResult taskRun \<Rightarrow> DeleteRequest \<Rightarrow> Proxy
     \<Rightarrow> MutationResult reply \<times> go_error \<times> Proxy" where
  "Delete protoSize run request node =
     (let receiveSize = protoSize request;
          node = rateCol_Add (RateType_String RateType_DMLDelete) receiveSize node;
          node = ProxyReceiveBytes_Add DeleteLabel receiveSize node
      in if \<not> checkHealthy node then (Built unhealthyStatus, None, node)
         else
           let method = ''Delete'';
               node = ProxyFunctionCall_Inc method TotalLabel node;
               dt = \<lparr>dt_MsgType = MsgType_Delete, dt_MsgID = 0,
                     dt_HashValues = dr_HashKeys request,
                     dt_deleteExpr = dr_Expr request,
                     dt_DbName = dr_DbName request,
                     dt_CollectionName = dr_CollectionName request,
                     dt_PartitionName = dr_PartitionName request\<rparr>;
               node = sched_Enqueue dmQueue (DeleteTask dt) node
           in case enqueue run of
                Some err \<Rightarrow>
                  (Built (failStatus err), None, ProxyFunctionCall_Inc method AbandonLabel node)
              | None \<Rightarrow>
                  let node = task_WaitToFinish (DeleteTask dt) node
                  in (case waitToFinish run of
                        Some err \<Rightarrow>
                          (Built (failStatus err), None,
                           ProxyFunctionCall_Inc method FailLabel node)
                      | None \<Rightarrow>
                          (TaskResult (result run), None,
                           ProxyFunctionCall_Inc method SuccessLabel node)))"

section \<open>Search and Query\<close>

text \<open>
  Both handlers account for the request before they look at the state code. Search hands
  back the task's result pointer and measures it only when it is not \<^verbatim>\<open>nil\<close>; Query
  copies \<^verbatim>\<open>Status\<close> and \<^verbatim>\<open>FieldsData\<close> out of the task's result into a new message,
  which panics on a \<^verbatim>\<open>nil\<close> result (\<open>None\<close> in the model).
\<close>

definition Search ::
  "(SearchRequest \<Rightarrow> int) \<Rightarrow> (SearchResults \<Rightarrow> int) \<Rightarrow> SearchResults taskRun
     \<Rightarrow> SearchRequest \<Rightarrow> Proxy \<Rightarrow> SearchResults reply \<times> go_error \<times> Proxy" where
  "Search protoSize protoSizeResult run request node =
     (let receiveSize = protoSize request;
          node = ProxyReceiveBytes_Add SearchLabel receiveSize node;
          node = rateCol_Add (RateType_String RateType_DQLSearch) (sr_Nq request) node
      in if \<not> checkHealthy node then (Built unhealthyStatus, None, node)
         else
           let method = ''Search'';
               node = ProxyFunctionCall_Inc method TotalLabel node;
               qt = \<lparr>st_MsgType = MsgType_Search, st_SourceID = NodeID (params node),
                     st_ReqID = NodeID (params node), st_request = request\<rparr>;
               node = sched_Enqueue dqQueue (SearchTask qt) node
           in case enqueue run of
                Some err \<Rightarrow>
                  (Built (failStatus err), None, ProxyFunctionCall_Inc method AbandonLabel node)
              | None \<Rightarrow>
                  let node = task_WaitToFinish (SearchTask qt) node
                  in (case waitToFinish run of
                        Some err \<Rightarrow>
                          (Built (failStatus err), None,
                           ProxyFunctionCall_Inc method FailLabel node)
                      | None \<Rightarrow>
                          let node = ProxyFunctionCall_Inc method SuccessLabel node;
                              node = (case result run of
                                        None \<Rightarrow> node
                                      | Some res \<Rightarrow>
                                          let sentSize = protoSizeResult res;
                                              node = ProxyReadReqSendBytes_Add sentSize node
                                          in rateCol_Add ReadResultThroughput sentSize node)
                          in (TaskResult (result run), None, node)))"

definition Query ::
  "(QueryRequest \<Rightarrow> int) \<Rightarrow> (QueryResults \<Rightarrow> int) \<Rightarrow> QueryResults taskRun
     \<Rightarrow> QueryRequest \<Rightarrow> Proxy \<Rightarrow> (QueryResults \<times> go_error \<times> Proxy) option" where
  "Query protoSize protoSizeResult run request node =
     (let receiveSize = protoSize request;
          node = ProxyReceiveBytes_Add QueryLabel receiveSize node;
          node = rateCol_Add (RateType_String RateType_DQLQuery) 1 node
      in if \<not> checkHealthy node
         then Some (\<lparr>qres_Status = unhealthyStatus, qres_FieldsData = [],
                      qres_CollectionName = []\<rparr>, None, node)
         else
           let qt = \<lparr>qt_MsgType = MsgType_Retrieve, qt_SourceID = NodeID (params node),
                     qt_ReqID = NodeID (params node), qt_request = request\<rparr>;
               method = ''Query'';
               node = ProxyFunctionCall_Inc method TotalLabel node;
               node = sched_Enqueue dqQueue (QueryTask qt) node
           in case enqueue run of
                Some err \<Rightarrow>
                  Some (\<lparr>qres_Status = failStatus err, qres_FieldsData = [],
                          qres_CollectionName = []\<rparr>, None,
                        ProxyFunctionCall_Inc method AbandonLabel node)
              | None \<Rightarrow>
                  let node = task_WaitToFinish (QueryTask qt) node
                  in (case waitToFinish run of
                        Some err \<Rightarrow>
                          Some (\<lparr>qres_Status = failStatus err, qres_FieldsData = [],
                                  qres_CollectionName = []\<rparr>, None,
                                ProxyFunctionCall_Inc method FailLabel node)
                      | None \<Rightarrow>
                          let node = ProxyFunctionCall_Inc method SuccessLabel node
                          in (case result run of
                                None \<Rightarrow> None
                              | Some res \<Rightarrow>
                                  let ret = \<lparr>qres_Status = qres_Status res,
                                             qres_FieldsData = qres_FieldsData res,
                                             qres_CollectionName = []\<rparr>;
                                      sentSize = protoSizeResult res;
                                      node = rateCol_Add ReadResultThroughput sentSize node;
                                      node = ProxyReadReqSendBytes_Add sentSize node
                                  in Some (ret, None, node))))"

section \<open>CalcDistance\<close>

text \<open>
  CalcDistance enqueues nothing itself (\<^verbatim>\<open>calcDistanceTask is not a standard task, no
  need to enqueue\<close>): it builds the closure \<^verbatim>\<open>query\<close>, which runs a query task on the
  DQL queue, and passes it to \<^verbatim>\<open>calcDistanceTask.Execute\<close>. That method is outside this
  file and is a parameter of the model.
\<close>

definition CalcDistance_query ::
  "QueryResults taskRun \<Rightarrow> VectorIDs \<Rightarrow> Proxy \<Rightarrow> (QueryResults \<times> go_error \<times> Proxy) option" where
  "CalcDistance_query run ids node =
     (let outputFields = [vi_FieldName ids];
          queryRequest = \<lparr>qr_DbName = [], qr_CollectionName = vi_CollectionName ids,
                           qr_PartitionNames = vi_PartitionNames ids, qr_Expr = [],
                           qr_OutputFields = outputFields, qr_TravelTimestamp = 0,
                           qr_GuaranteeTimestamp = 0\<rparr>;
          qt = \<lparr>qt_MsgType = MsgType_Retrieve, qt_SourceID = NodeID (params node),
                qt_ReqID = NodeID (params node), qt_request = queryRequest\<rparr>;
          node = sched_Enqueue dqQueue (QueryTask qt) node
      in case enqueue run of
           Some err \<Rightarrow>
             Some (\<lparr>qres_Status = failStatus err, qres_FieldsData = [],
                     qres_CollectionName = []\<rparr>, Some err, node)
         | None \<Rightarrow>
             let node = task_WaitToFinish (QueryTask qt) node
             in (case waitToFinish run of
                   Some err \<Rightarrow>
                     Some (\<lparr>qres_Status = failStatus err, qres_FieldsData = [],
                             qres_CollectionName = []\<rparr>, Some err, node)
                 | None \<Rightarrow>
                     (case result run of
                        None \<Rightarrow> None
                      | Some res \<Rightarrow>
                          Some (\<lparr>qres_Status = qres_Status res,
                                  qres_FieldsData = qres_FieldsData res,
                                  qres_CollectionName = []\<rparr>, None, node))))"

definition CalcDistance ::
  "((QueryResults taskRun \<Rightarrow> VectorIDs \<Rightarrow> Proxy \<Rightarrow> (QueryResults \<times> go_error \<times> Proxy) option)
      \<Rightarrow> 'req \<Rightarrow> Proxy \<Rightarrow> ('res reply \<times> go_error \<times> Proxy) option)
     \<Rightarrow> 'req \<Rightarrow> Proxy \<Rightarrow> ('res reply \<times> go_error \<times> Proxy) option" where
  "CalcDistance Execute request node =
     (if \<not> checkHealthy node then Some (Built unhealthyStatus, None, node)
      else Execute CalcDistance_query request node)"

section \<open>InvalidateCollectionMetaCache\<close>

text \<open>
  The request carries an optional \<^verbatim>\<open>Base\<close>; the getters \<^verbatim>\<open>GetBase().GetMsgType()\<close>
  answer \<^verbatim>\<open>MsgType_Undefined\<close> on \<^verbatim>\<open>nil\<close>.
\<close>

record InvalidateCollMetaCacheRequest =
  icr_Base :: "MsgType option"
  icr_DbName :: string
  icr_CollectionName :: string
  icr_CollectionID :: int

definition GetMsgType :: "MsgType option \<Rightarrow> MsgType" where
  "GetMsgType base = (case base of None \<Rightarrow> MsgType_Undefined | Some t \<Rightarrow> t)"

text \<open>
  The state this handler touches: the package-level \<^verbatim>\<open>globalMetaCache\<close> (a pointer,
  \<open>None\<close> is \<^verbatim>\<open>nil\<close>), the channel manager \<^verbatim>\<open>node.chMgr\<close>, and the two
  per-collection histograms, each the set of label tuples (node, kind, collection) that
  has a child.
\<close>

record ('cache, 'chmgr) MetaState =
  globalMetaCache :: "'cache option"
  chMgr :: 'chmgr
  ProxyCollectionSQLatency :: "(int \<times> msg_label \<times> string) set"
  ProxyCollectionMutationLatency :: "(int \<times> msg_label \<times> string) set"

text \<open>
  The metadata cache and the channel manager are outside this file. The three methods
  the handler calls on them are parameters of the model, each a function on the state of
  its receiver.
\<close>

record ('cache, 'chmgr) metaOps =
  RemoveCollection :: "string \<Rightarrow> 'cache \<Rightarrow> 'cache"
  RemoveCollectionsByID :: "int \<Rightarrow> 'cache \<Rightarrow> 'cache"
  removeDMLStream :: "int \<Rightarrow> 'chmgr \<Rightarrow> 'chmgr"

text \<open>\<^verbatim>\<open>metrics.CleanupCollectionMetrics\<close>: four \<^verbatim>\<open>Delete\<close> calls on the two vectors.\<close>

definition CleanupCollectionMetrics ::
  "int \<Rightarrow> string \<Rightarrow> ('cache, 'chmgr) MetaState \<Rightarrow> ('cache, 'chmgr) MetaState" where
  "CleanupCollectionMetrics nodeID collection st =
     (let st = st\<lparr>ProxyCollectionSQLatency :=
                    ProxyCollectionSQLatency st - {(nodeID, SearchLabel, collection)}\<rparr>;
          st = st\<lparr>ProxyCollectionSQLatency :=
                    ProxyCollectionSQLatency st - {(nodeID, QueryLabel, collection)}\<rparr>;
          st = st\<lparr>ProxyCollectionMutationLatency :=
                    ProxyCollectionMutationLatency st - {(nodeID, InsertLabel, collection)}\<rparr>
      in st\<lparr>ProxyCollectionMutationLatency :=
               ProxyCollectionMutationLatency st - {(nodeID, DeleteLabel, collection)}\<rparr>)"

definition InvalidateCollectionMetaCache ::
  "('cache, 'chmgr) metaOps \<Rightarrow> int \<Rightarrow> InvalidateCollMetaCacheRequest
     \<Rightarrow> ('cache, 'chmgr) MetaState \<Rightarrow> Status \<times> go_error \<times> ('cache, 'chmgr) MetaState" where
  "InvalidateCollectionMetaCache ops nodeID request st =
     (let collectionName = icr_CollectionName request;
          collectionID = icr_CollectionID request;
          st = (case globalMetaCache st of
                  None \<Rightarrow> st
                | Some cache \<Rightarrow>
                    let cache = (if collectionName \<noteq> []
                                 then RemoveCollection ops collectionName cache else cache);
                        cache = (if icr_CollectionID request \<noteq> 0
                                 then RemoveCollectionsByID ops collectionID cache else cache)
                    in st\<lparr>globalMetaCache := Some cache\<rparr>);
          st = (if GetMsgType (icr_Base request) = MsgType_DropCollection
                then CleanupCollectionMetrics nodeID collectionName
                       (st\<lparr>chMgr := removeDMLStream ops (icr_CollectionID request) (chMgr st)\<rparr>)
                else st)
      in (\<lparr>ErrorCode = ErrorCode_Success, Reason = []\<rparr>, None, st))"

section \<open>SetRates\<close>

text \<open>
  \<^verbatim>\<open>globalRateLimiter.setRates\<close> is outside this file: it is a parameter, a function
  from the requested rates and the limiter to an error and the limiter afterwards.
\<close>

definition SetRates ::
  "('rates \<Rightarrow> 'lim \<Rightarrow> go_error \<times> 'lim) \<Rightarrow> 'rates \<Rightarrow> Proxy \<Rightarrow> 'lim
     \<Rightarrow> Status \<times> go_error \<times> 'lim" where
  "SetRates setRates rates node limiter =
     (let resp = \<lparr>ErrorCode = ErrorCode_UnexpectedError, Reason = []\<rparr>
      in if \<not> checkHealthy node then (unhealthyStatus, None, limiter)
         else
           let (err, limiter) = setRates rates limiter
           in case err of
                Some msg \<Rightarrow> (resp\<lparr>Reason := msg\<rparr>, None, limiter)
              | None \<Rightarrow> (resp\<lparr>ErrorCode := ErrorCode_Success\<rparr>, None, limiter))"

section \<open>CheckHealth\<close>

record CheckHealthResponse =
  IsHealthy :: bool
  Reasons :: "string list"

text \<open>
  What a coordinator's \<^verbatim>\<open>CheckHealth\<close> returns: a response pointer and an error.
\<close>

type_synonym coord_reply = "CheckHealthResponse option \<times> go_error"

record coordinators =
  rootCoord :: coord_reply
  queryCoord :: coord_reply
  dataCoord :: coord_reply
  indexCoord :: coord_reply

text \<open>
  The closure \<^verbatim>\<open>fn\<close>, on the shared slice \<^verbatim>\<open>errReasons\<close>. It returns the slice and
  the error it passes to the group; \<open>None\<close> is the panic of \<^verbatim>\<open>resp.IsHealthy\<close> on a
  \<^verbatim>\<open>nil\<close> response.
\<close>

definition fn :: "string \<Rightarrow> coord_reply \<Rightarrow> string list \<Rightarrow> (string list \<times> go_error) option" where
  "fn role reply errReasons =
     (case snd reply of
        Some err \<Rightarrow> Some (errReasons @ [''check health fail for '' @ role], Some err)
      | None \<Rightarrow>
          (case fst reply of
             None \<Rightarrow> None
           | Some resp \<Rightarrow>
               Some (if \<not> IsHealthy resp then errReasons @ Reasons resp else errReasons, None)))"

text \<open>
  The four goroutines take the mutex of \<^verbatim>\<open>fn\<close> one at a time; the model runs them in
  the order of the source. \<^verbatim>\<open>group.Wait\<close> returns the first error a goroutine returned.
\<close>

fun runGroup ::
  "(string \<times> coord_reply) list \<Rightarrow> string list \<times> go_error \<Rightarrow> (string list \<times> go_error) option" where
  "runGroup [] acc = Some acc"
| "runGroup ((role, reply) # rest) (errReasons, err) =
     (case fn role reply errReasons of
        None \<Rightarrow> None
      | Some (errReasons', e) \<Rightarrow>
          runGroup rest (errReasons', (case err of None \<Rightarrow> e | Some x \<Rightarrow> Some x)))"

definition CheckHealth ::
  "(string \<Rightarrow> int \<Rightarrow> string \<Rightarrow> string) \<Rightarrow> int \<Rightarrow> coordinators \<Rightarrow> Proxy
     \<Rightarrow> (CheckHealthResponse \<times> go_error) option" where
  "CheckHealth UnHealthReason serverID coords node =
     (if \<not> checkHealthy node
      then Some (\<lparr>IsHealthy = False,
                   Reasons = [UnHealthReason ''proxy'' serverID ''proxy is unhealthy'']\<rparr>, None)
      else
        case runGroup [(''rootcoord'', rootCoord coords), (''querycoord'', queryCoord coords),
                       (''datacoord'', dataCoord coords), (''indexcoord'', indexCoord coords)]
                      ([], None) of
          None \<Rightarrow> None
        | Some (errReasons, err) \<Rightarrow>
            if err \<noteq> None \<or> length errReasons \<noteq> 0
            then Some (\<lparr>IsHealthy = False, Reasons = errReasons\<rparr>, None)
            else Some (\<lparr>IsHealthy = True, Reasons = []\<rparr>, None))"

text \<open>
  For the verdict of the group: a goroutine panics on an answer without error and
  without response; it passes when the coordinator answered without error and was
  healthy or gave no reason.
\<close>

fun panics :: "string \<times> coord_reply \<Rightarrow> bool" where
  "panics (role, resp, err) = (err = None \<and> resp = None)"

fun passes :: "string \<times> coord_reply \<Rightarrow> bool" where
  "passes (role, resp, err) =
     (err = None
      \<and> (case resp of None \<Rightarrow> False | Some r \<Rightarrow> IsHealthy r \<or> Reasons r = []))"

section \<open>The task queue of the scheduler\<close>

text \<open>
  Modelled from the spec: \<^verbatim>\<open>Enqueue\<close> of the task scheduler and the logical clock
  client are not in the source given; the handlers only call them. The spec (4.1, 5, 6)
  says: a queue holds its pending tasks in FIFO admission order; \<^verbatim>\<open>Enqueue\<close> never
  blocks, it either rejects with an explicit error or accepts; on acceptance, and not at
  construction, it assigns the task's ID and reads the clock for its \<^verbatim>\<open>BeginTs\<close>; the
  clock never runs backwards, and two reads differ when the clock has advanced between
  them. A read is given the amount \<open>d\<close> by which the clock has advanced since the last
  read: \<open>0 < d\<close> is a distinct clock read, \<open>d = 0\<close> a tie.
\<close>

record schedTask =
  t_ID :: nat
  t_BeginTs :: nat
  t_EndTs :: nat
  t_payload :: string

record taskQueue =
  unissuedTasks :: "schedTask list"
  clock :: nat
  nextID :: nat

text \<open>
  Modelled from the spec: \<^verbatim>\<open>AllocTimestamp\<close> of the logical clock (6), a read of a
  clock that has advanced by \<open>d\<close>.
\<close>

definition AllocTimestamp :: "nat \<Rightarrow> taskQueue \<Rightarrow> nat \<times> taskQueue" where
  "AllocTimestamp d q = (clock q + d, q\<lparr>clock := clock q + d\<rparr>)"

text \<open>
  Modelled from the spec: the ID allocator (3: a task's ID is unique and monotonic within
  the process).
\<close>

definition AllocID :: "taskQueue \<Rightarrow> nat \<times> taskQueue" where
  "AllocID q = (nextID q, q\<lparr>nextID := Suc (nextID q)\<rparr>)"

text \<open>
  Modelled from the spec: \<^verbatim>\<open>Enqueue\<close> of a scheduler queue (4.1). In
  \<open>queue_Enqueue reject d t q\<close>, \<open>reject\<close> is the verdict of the health and admission
  checks (\<open>Some err\<close> rejects with \<open>err\<close>, and then neither the clock nor the queue is
  touched), \<open>d\<close> the advance of the clock.
\<close>

definition queue_Enqueue ::
  "go_error \<Rightarrow> nat \<Rightarrow> schedTask \<Rightarrow> taskQueue \<Rightarrow> go_error \<times> taskQueue" where
  "queue_Enqueue reject d t q =
     (case reject of
        Some err \<Rightarrow> (Some err, q)
      | None \<Rightarrow>
          let (ts, q) = AllocTimestamp d q;
              (id, q) = AllocID q;
              t = t\<lparr>t_ID := id, t_BeginTs := ts, t_EndTs := ts\<rparr>
          in (None, q\<lparr>unissuedTasks := unissuedTasks q @ [t]\<rparr>))"

text \<open>A run of the queue: one \<^verbatim>\<open>Enqueue\<close> call after the other.\<close>

fun enqueueAll :: "(go_error \<times> nat \<times> schedTask) list \<Rightarrow> taskQueue \<Rightarrow> taskQueue" where
  "enqueueAll [] q = q"
| "enqueueAll ((reject, d, t) # calls) q = enqueueAll calls (snd (queue_Enqueue reject d t q))"

definition admitted :: "(go_error \<times> nat \<times> schedTask) list \<Rightarrow> schedTask list" where
  "admitted calls = map (\<lambda>(reject, d, t). t) (filter (\<lambda>(reject, d, t). reject = None) calls)"

definition newQueue :: "nat \<Rightarrow> nat \<Rightarrow> taskQueue" where
  "newQueue now firstID = \<lparr>unissuedTasks = [], clock = now, nextID = firstID\<rparr>"

text \<open>
  What the queue keeps true: the pending tasks are in the order of their \<^verbatim>\<open>BeginTs\<close>,
  and none is later than the clock.
\<close>

definition stamped :: "taskQueue \<Rightarrow> bool" where
  "stamped q \<longleftrightarrow>
     sorted (map t_BeginTs (unissuedTasks q))
     \<and> list_all (\<lambda>t. t_BeginTs t \<le> clock q) (unissuedTasks q)"

definition stamped_strictly :: "taskQueue \<Rightarrow> bool" where
  "stamped_strictly q \<longleftrightarrow>
     sorted_wrt (<) (map t_BeginTs (unissuedTasks q))
     \<and> list_all (\<lambda>t. t_BeginTs t \<le> clock q) (unissuedTasks q)"

section \<open>Example states\<close>

text \<open>Concrete proxies, scheduler answers and requests, for the instances below.\<close>

definition healthyProxy :: Proxy where
  "healthyProxy =
     \<lparr>stateCode = StateCode_Healthy,
      params = \<lparr>NodeID = 1, DefaultPartitionName = ''_default''\<rparr>,
      sched = [], rateCol = [], ProxyReceiveBytes = [], ProxyReadReqSendBytes = [],
      ProxyFunctionCall = []\<rparr>"

definition abnormalProxy :: Proxy where
  "abnormalProxy = healthyProxy\<lparr>stateCode := StateCode_Abnormal\<rparr>"

definition rejectedRun :: "'r taskRun" where
  "rejectedRun = \<lparr>enqueue = Some ''task queue is full'', waitToFinish = None, result = None\<rparr>"

definition doneRun :: "'r \<Rightarrow> 'r taskRun" where
  "doneRun r = \<lparr>enqueue = None, waitToFinish = None, result = Some r\<rparr>"

definition anInsertRequest :: InsertRequest where
  "anInsertRequest =
     \<lparr>ir_DbName = [], ir_CollectionName = ''books'', ir_PartitionName = [],
      ir_HashKeys = [], ir_NumRows = 3\<rparr>"


definition aSearchRequest :: SearchRequest where
  "aSearchRequest =
     \<lparr>sr_DbName = [], sr_CollectionName = ''books'', sr_PartitionNames = [], sr_Nq = 5,
      sr_TravelTimestamp = 0, sr_GuaranteeTimestamp = 0\<rparr>"

definition aQueryRequest :: QueryRequest where
  "aQueryRequest =
     \<lparr>qr_DbName = [], qr_CollectionName = ''books'', qr_PartitionNames = [],
      qr_Expr = ''id in [1]'', qr_OutputFields = [], qr_TravelTimestamp = 0,
      qr_GuaranteeTimestamp = 0\<rparr>"

text \<open>
  Modelled from the spec: a metadata cache and a channel manager for the instances
  below; neither is in the source given. The spec keys a cache entry by name and ID and
  has the channel state of a collection removed when the collection is dropped. The
  cache is a map from collection name to collection ID, the channel manager a map from
  collection ID to channel names; the three methods delete from them.
\<close>

definition mapOps :: "(string \<rightharpoonup> int, int \<rightharpoonup> string list) metaOps" where
  "mapOps =
     \<lparr>RemoveCollection = (\<lambda>collectionName cache. cache(collectionName := None)),
      RemoveCollectionsByID =
        (\<lambda>collectionID cache name.
           case cache name of
             None \<Rightarrow> None
           | Some i \<Rightarrow> if i = collectionID then None else Some i),
      removeDMLStream = (\<lambda>collectionID streams. streams(collectionID := None))\<rparr>"

definition aMetaState :: "(string \<rightharpoonup> int, int \<rightharpoonup> string list) MetaState" where
  "aMetaState =
     \<lparr>globalMetaCache = Some [''books'' \<mapsto> 42, ''films'' \<mapsto> 43],
      chMgr = [42 \<mapsto> [''dml-0'']],
      ProxyCollectionSQLatency = {(1, SearchLabel, ''books''), (1, SearchLabel, ''films'')},
      ProxyCollectionMutationLatency = {(1, InsertLabel, ''books'')}\<rparr>"

text \<open>A limiter: the table of the rates set so far, refusing a negative rate.\<close>

definition tableSetRates ::
  "(RateType \<times> int) list \<Rightarrow> (RateType \<times> int) list \<Rightarrow> go_error \<times> (RateType \<times> int) list" where
  "tableSetRates rates limiter =
     (if list_ex (\<lambda>(t, r). r < 0) rates then (Some ''negative rate'', limiter)
      else (None, rates @ limiter))"

definition aMutationResult :: MutationResult where
  "aMutationResult =
     \<lparr>mr_Status = \<lparr>ErrorCode = ErrorCode_Success, Reason = []\<rparr>, mr_ErrIndex = [],
      mr_InsertCnt = 0\<rparr>"



definition aTask :: "string \<Rightarrow> schedTask" where
  "aTask p = \<lparr>t_ID = 0, t_BeginTs = 0, t_EndTs = 0, t_payload = p\<rparr>"

section \<open>Properties\<close>

lemmas handler_defs =
  checkHealthy_def rateCol_Add_def ProxyReceiveBytes_Add_def ProxyReadReqSendBytes_Add_def
  ProxyFunctionCall_Inc_def sched_Enqueue_def task_WaitToFinish_def failStatus_def Let_def

lemma healthyProxy_healthy: "checkHealthy healthyProxy"
  by (simp add: checkHealthy_def healthyProxy_def)

lemma abnormalProxy_unhealthy: "\<not> checkHealthy abnormalProxy"
  by (simp add: checkHealthy_def abnormalProxy_def healthyProxy_def)

subsection \<open>The error index of a failed insert\<close>

lemma word32_inc_unat: "(i::32 word) < n \<Longrightarrow> unat (i + 1) = Suc (unat i)"
proof -
  assume less: "i < n"
  have "unat n < 2 ^ 32"
    using unsigned_less [of n] by simp
  moreover from less have "unat i < unat n"
    by (simp add: word_less_nat_alt)
  ultimately have "unat i + unat (1::32 word) < 2 ^ LENGTH(32)"
    by simp
  then have "unat (i + 1) = unat i + unat (1::32 word)"
    by (simp only: unat_add_lem)
  then show ?thesis
    by simp
qed

text \<open>
  The loop writes \<open>i\<close> at index \<open>i\<close> for every \<open>i\<close> from the counter up to
  \<open>numRows\<close>; what the slice holds below the counter is kept.
\<close>

lemma fillErrIndex_eq:
  "i \<le> numRows \<Longrightarrow> length errIndex = unat numRows \<Longrightarrow>
   fillErrIndex i numRows errIndex =
     take (unat i) errIndex @ map word_of_nat [unat i..<unat numRows]"
proof (induction i numRows errIndex rule: fillErrIndex.induct)
  case (1 i numRows errIndex)
  show ?case
  proof (cases "i < numRows")
    case True
    then have suc: "unat (i + 1) = Suc (unat i)"
      by (rule word32_inc_unat)
    from True have lt: "unat i < unat numRows"
      by (simp add: word_less_nat_alt)
    from True have le: "i + 1 \<le> numRows"
      by (rule inc_le)
    have step: "fillErrIndex i numRows errIndex =
        fillErrIndex (i + 1) numRows (errIndex[unat i := i])"
      using True by (simp add: fillErrIndex.simps [of i])
    have ih: "fillErrIndex (i + 1) numRows (errIndex[unat i := i]) =
        take (unat (i + 1)) (errIndex[unat i := i])
        @ map word_of_nat [unat (i + 1)..<unat numRows]"
      using "1.IH" [OF True le] "1.prems" by simp
    have take_split: "take (unat (i + 1)) (errIndex[unat i := i]) = take (unat i) errIndex @ [i]"
      using lt "1.prems" by (simp add: suc take_Suc_conv_app_nth)
    have upt_split: "[unat i..<unat numRows] = unat i # [unat (i + 1)..<unat numRows]"
      using lt by (simp add: suc upt_conv_Cons)
    show ?thesis
      by (simp add: step ih take_split upt_split)
  next
    case False
    with "1.prems" have "i = numRows"
      by simp
    then show ?thesis
      using "1.prems" by (simp add: fillErrIndex.simps [of numRows])
  qed
qed

lemma makeErrIndex_eq: "makeErrIndex numRows = map word_of_nat [0..<unat numRows]"
  by (simp add: makeErrIndex_def fillErrIndex_eq)

lemma length_makeErrIndex: "length (makeErrIndex numRows) = unat numRows"
  by (simp add: makeErrIndex_eq)

lemma nth_makeErrIndex: "i < unat numRows \<Longrightarrow> makeErrIndex numRows ! i = word_of_nat i"
  by (simp add: makeErrIndex_eq)

subsection \<open>C1: the result of a failed insert\<close>

text \<open>
  When the task ran and ended with a status other than Success, the handler writes every
  row index into \<^verbatim>\<open>ErrIndex\<close> and the number of rows into \<^verbatim>\<open>InsertCnt\<close>.
\<close>

lemma Insert_task_failed:
  assumes "checkHealthy node" "enqueue run = None" "waitToFinish run = None"
    and "result run = Some res" "ErrorCode (mr_Status res) \<noteq> ErrorCode_Success"
  shows "map_option fst (Insert protoSize run request node) =
      Some (res\<lparr>mr_ErrIndex := map word_of_nat [0..<unat (ir_NumRows request)],
                 mr_InsertCnt := ucast (ir_NumRows request)\<rparr>)"
  using assms by (simp add: Insert_def Let_def makeErrIndex_eq)

text \<open>
  C1. Stated of every failed Insert of \<open>N\<close> rows on a healthy proxy: the result has
  \<^verbatim>\<open>ErrIndex\<close> \<open>= [0, ..., N - 1]\<close> and \<^verbatim>\<open>InsertCnt\<close> \<open>= N\<close>. On two of the three
  failure paths the code does otherwise. When \<^verbatim>\<open>Enqueue\<close> is rejected, or
  \<^verbatim>\<open>WaitToFinish\<close> returns an error, the response is built by
  \<^verbatim>\<open>constructFailedResponse\<close>: it carries the error's message and every row index, and
  its \<^verbatim>\<open>InsertCnt\<close> is zero, whatever \<open>N\<close> is. The assignment
  \<^verbatim>\<open>it.result.InsertCnt = int64(request.NumRows)\<close>, which the source comments with
  "InsertCnt always equals to the number of entities in the request", is reached only
  after a successful wait.
\<close>

theorem Insert_failed_response_InsertCnt:
  assumes healthy: "checkHealthy node"
    and failed: "enqueue run = Some err \<or> (enqueue run = None \<and> waitToFinish run = Some err)"
  shows "map_option (\<lambda>(resp, e, node'). (resp, e)) (Insert protoSize run request node) =
      Some (\<lparr>mr_Status = \<lparr>ErrorCode = ErrorCode_UnexpectedError, Reason = err\<rparr>,
              mr_ErrIndex = map word_of_nat [0..<unat (ir_NumRows request)],
              mr_InsertCnt = 0\<rparr>, None)"
proof -
  have resp: "constructFailedResponse request err =
      \<lparr>mr_Status = \<lparr>ErrorCode = ErrorCode_UnexpectedError, Reason = err\<rparr>,
       mr_ErrIndex = map word_of_nat [0..<unat (ir_NumRows request)], mr_InsertCnt = 0\<rparr>"
    by (simp add: constructFailedResponse_def makeErrIndex_eq)
  from failed show ?thesis
  proof
    assume "enqueue run = Some err"
    with healthy show ?thesis
      by (simp add: Insert_def Let_def resp)
  next
    assume "enqueue run = None \<and> waitToFinish run = Some err"
    with healthy show ?thesis
      by (simp add: Insert_def Let_def resp)
  qed
qed

text \<open>Three rows, a full queue: three failed indices, and an \<^verbatim>\<open>InsertCnt\<close> of zero.\<close>

theorem Insert_failed_response_InsertCnt_witness:
  "ir_NumRows anInsertRequest = 3
   \<and> map_option (\<lambda>(resp, e, node'). (mr_ErrIndex resp, mr_InsertCnt resp, e))
        (Insert (\<lambda>r. 64) rejectedRun anInsertRequest healthyProxy)
     = Some ([0, 1, 2], 0, None)"
proof -
  have "enqueue (rejectedRun :: MutationResult taskRun) = Some ''task queue is full''
      \<or> (enqueue (rejectedRun :: MutationResult taskRun) = None
          \<and> waitToFinish (rejectedRun :: MutationResult taskRun) = Some ''task queue is full'')"
    by (simp add: rejectedRun_def)
  from Insert_failed_response_InsertCnt
    [OF healthyProxy_healthy this, of "\<lambda>r. 64" anInsertRequest]
  show ?thesis
    by (auto simp add: anInsertRequest_def upt_rec)
qed

subsection \<open>C2: the answer of a proxy that is not healthy\<close>

text \<open>
  Every handler that runs a task, Flush apart, answers an unhealthy proxy with
  \<^verbatim>\<open>unhealthyStatus()\<close> and a \<^verbatim>\<open>nil\<close> error, and calls the scheduler not at all: the
  log \<open>sched\<close> is as it was.
\<close>

lemma unhealthy_siblings:
  assumes "\<not> checkHealthy node"
  shows "ddHandler method run node = (Built unhealthyStatus, None, node)"
    and "DescribeIndex statusOf run node = (Built unhealthyStatus, None, node)"
    and "Insert protoSize mrun irequest node =
           Some (\<lparr>mr_Status = unhealthyStatus, mr_ErrIndex = [], mr_InsertCnt = 0\<rparr>, None, node)"
    and "fst (Delete dSize mrun drequest node) = Built unhealthyStatus"
    and "fst (snd (Delete dSize mrun drequest node)) = None"
    and "sched (snd (snd (Delete dSize mrun drequest node))) = sched node"
    and "fst (Search sSize rSize srun srequest node) = Built unhealthyStatus"
    and "fst (snd (Search sSize rSize srun srequest node)) = None"
    and "sched (snd (snd (Search sSize rSize srun srequest node))) = sched node"
    and "map_option (\<lambda>(resp, e, node'). (qres_Status resp, e, sched node'))
           (Query qSize qrSize qrun qrequest node) = Some (unhealthyStatus, None, sched node)"
    and "CalcDistance Execute crequest node = Some (Built unhealthyStatus, None, node)"
  using assms
  by (simp_all add: ddHandler_def DescribeIndex_def Insert_def Delete_def Search_def Query_def
      CalcDistance_def handler_defs)

text \<open>
  C2. Stated of every handler that runs a task: on a proxy whose state code is not
  Healthy it returns, with a \<^verbatim>\<open>nil\<close> error and without enqueueing, a status of
  \<^verbatim>\<open>UnexpectedError\<close> with the reason "proxy not healthy". Flush returns at once and
  enqueues nothing, as claimed, but it does not use \<^verbatim>\<open>unhealthyStatus()\<close>: it writes
  the reason "proxy is not healthy" into the response it built beforehand.
\<close>

theorem Flush_unhealthy_reason:
  assumes "\<not> checkHealthy node"
  shows "Flush run node =
      (Built \<lparr>ErrorCode = ErrorCode_UnexpectedError, Reason = ''proxy is not healthy''\<rparr>,
       None, node)"
  using assms by (simp add: Flush_def)

theorem Flush_unhealthy_reason_witness:
  "fst (Flush (doneRun ()) abnormalProxy) =
     Built \<lparr>ErrorCode = ErrorCode_UnexpectedError, Reason = ''proxy is not healthy''\<rparr>
   \<and> fst (CreateCollection (doneRun ()) abnormalProxy) =
     Built \<lparr>ErrorCode = ErrorCode_UnexpectedError, Reason = ''proxy not healthy''\<rparr>"
  using Flush_unhealthy_reason [OF abnormalProxy_unhealthy, of "doneRun ()"]
  by (simp add: CreateCollection_def ddHandler_def abnormalProxy_unhealthy unhealthyStatus_def)

subsection \<open>C3: a rejected enqueue is returned to the caller\<close>

lemmas ddHandler_names =
  CreateCollection_def DropCollection_def HasCollection_def LoadCollection_def
  ReleaseCollection_def DescribeCollection_def GetStatistics_def GetCollectionStatistics_def
  ShowCollections_def AlterCollection_def CreatePartition_def DropPartition_def
  HasPartition_def LoadPartitions_def ReleasePartitions_def GetPartitionStatistics_def
  ShowPartitions_def CreateIndex_def DropIndex_def GetIndexBuildProgress_def
  GetIndexState_def CreateAlias_def DropAlias_def AlterAlias_def


text \<open>Each of the 24 named DDL handlers answers an unhealthy proxy as its siblings do.\<close>

lemma unhealthy_ddHandlers:
  assumes "\<not> checkHealthy node"
  shows "list_all (\<lambda>(rpc, handler). handler run node = (Built unhealthyStatus, None, node))
           ddHandlers"
  using assms by (simp add: ddHandlers_def ddHandler_names ddHandler_def)





subsection \<open>C4: timestamps follow the order of admission\<close>

lemma queue_Enqueue_rejected:
  "queue_Enqueue (Some err) d t q = (Some err, q)"
  by (simp add: queue_Enqueue_def)

lemma queue_Enqueue_accepted:
  "queue_Enqueue None d t q =
     (None, q\<lparr>clock := clock q + d, nextID := Suc (nextID q),
              unissuedTasks := unissuedTasks q
                @ [t\<lparr>t_ID := nextID q, t_BeginTs := clock q + d, t_EndTs := clock q + d\<rparr>]\<rparr>)"
  by (simp add: queue_Enqueue_def AllocTimestamp_def AllocID_def)

lemma stamped_Enqueue: "stamped q \<Longrightarrow> stamped (snd (queue_Enqueue reject d t q))"
  by (cases reject)
    (auto simp add: queue_Enqueue_rejected queue_Enqueue_accepted stamped_def sorted_append
      list_all_iff)

lemma stamped_strictly_Enqueue:
  "stamped_strictly q \<Longrightarrow> reject = None \<longrightarrow> 0 < d \<Longrightarrow>
   stamped_strictly (snd (queue_Enqueue reject d t q))"
  by (cases reject)
    (auto simp add: queue_Enqueue_rejected queue_Enqueue_accepted stamped_strictly_def
      sorted_wrt_append list_all_iff)

lemma stamped_enqueueAll: "stamped q \<Longrightarrow> stamped (enqueueAll calls q)"
proof (induction calls arbitrary: q)
  case Nil
  then show ?case by simp
next
  case (Cons c calls)
  obtain reject d t where c: "c = (reject, d, t)"
    by (cases c)
  from Cons.prems have "stamped (snd (queue_Enqueue reject d t q))"
    by (rule stamped_Enqueue)
  then show ?case
    by (simp add: c Cons.IH)
qed

lemma stamped_strictly_enqueueAll:
  "stamped_strictly q \<Longrightarrow> list_all (\<lambda>(reject, d, t). reject = None \<longrightarrow> 0 < d) calls \<Longrightarrow>
   stamped_strictly (enqueueAll calls q)"
proof (induction calls arbitrary: q)
  case Nil
  then show ?case by simp
next
  case (Cons c calls)
  obtain reject d t where c: "c = (reject, d, t)"
    by (cases c)
  from Cons.prems have "reject = None \<longrightarrow> 0 < d"
    and rest: "list_all (\<lambda>(reject, d, t). reject = None \<longrightarrow> 0 < d) calls"
    by (simp_all add: c)
  with Cons.prems have "stamped_strictly (snd (queue_Enqueue reject d t q))"
    by (simp add: stamped_strictly_Enqueue)
  then show ?case
    using rest by (simp add: c Cons.IH)
qed

lemma payload_enqueueAll:
  "map t_payload (unissuedTasks (enqueueAll calls q)) =
     map t_payload (unissuedTasks q) @ map t_payload (admitted calls)"
proof (induction calls arbitrary: q)
  case Nil
  then show ?case by (simp add: admitted_def)
next
  case (Cons c calls)
  obtain reject d t where c: "c = (reject, d, t)"
    by (cases c)
  show ?case
  proof (cases reject)
    case None
    then show ?thesis
      by (simp add: c Cons.IH queue_Enqueue_accepted admitted_def)
  next
    case (Some err)
    then show ?thesis
      by (simp add: c Cons.IH queue_Enqueue_rejected admitted_def)
  qed
qed

lemma constructed_stamps_ignored:
  "enqueueAll (map (\<lambda>(reject, d, t). (reject, d, t\<lparr>t_ID := a, t_BeginTs := b, t_EndTs := c\<rparr>)) calls) q
     = enqueueAll calls q"
proof (induction calls arbitrary: q)
  case Nil
  then show ?case by simp
next
  case (Cons x calls)
  obtain reject d t where x: "x = (reject, d, t)"
    by (cases x)
  have "queue_Enqueue reject d (t\<lparr>t_ID := a, t_BeginTs := b, t_EndTs := c\<rparr>) q =
      queue_Enqueue reject d t q"
    by (cases reject) (simp_all add: queue_Enqueue_rejected queue_Enqueue_accepted)
  then show ?case
    by (simp add: x Cons.IH)
qed

text \<open>
  C4. In a queue filled by any sequence of \<^verbatim>\<open>Enqueue\<close> calls, the pending tasks
  stand in the order in which they were admitted (their payloads are those of the
  accepted calls, in call order), and of two of them the earlier has the smaller or equal
  \<^verbatim>\<open>BeginTs\<close>; the smaller one when the clock had advanced at every accepted call. The ID and the
  timestamps a task carried when it was constructed play no part: overwriting them in
  every call leaves the run of the queue unchanged.
\<close>

theorem BeginTs_follows_admission_order:
  fixes calls :: "(go_error \<times> nat \<times> schedTask) list"
  assumes before: "i < j" "j < length (unissuedTasks (enqueueAll calls (newQueue now firstID)))"
  shows "map t_payload (unissuedTasks (enqueueAll calls (newQueue now firstID))) =
           map t_payload (admitted calls)
       \<and> t_BeginTs (unissuedTasks (enqueueAll calls (newQueue now firstID)) ! i)
           \<le> t_BeginTs (unissuedTasks (enqueueAll calls (newQueue now firstID)) ! j)
       \<and> (list_all (\<lambda>(reject, d, t). reject = None \<longrightarrow> 0 < d) calls \<longrightarrow>
           t_BeginTs (unissuedTasks (enqueueAll calls (newQueue now firstID)) ! i)
             < t_BeginTs (unissuedTasks (enqueueAll calls (newQueue now firstID)) ! j))
       \<and> enqueueAll
            (map (\<lambda>(reject, d, t). (reject, d, t\<lparr>t_ID := a, t_BeginTs := b, t_EndTs := c\<rparr>)) calls)
            (newQueue now firstID)
           = enqueueAll calls (newQueue now firstID)"
proof -
  let ?q = "enqueueAll calls (newQueue now firstID)"
  have "stamped (newQueue now firstID)"
    by (simp add: stamped_def newQueue_def)
  then have "stamped ?q"
    by (rule stamped_enqueueAll)
  then have "sorted (map t_BeginTs (unissuedTasks ?q))"
    by (simp add: stamped_def)
  with before have le: "t_BeginTs (unissuedTasks ?q ! i) \<le> t_BeginTs (unissuedTasks ?q ! j)"
    by (simp add: sorted_iff_nth_mono)
  have less: "t_BeginTs (unissuedTasks ?q ! i) < t_BeginTs (unissuedTasks ?q ! j)"
    if distinct: "list_all (\<lambda>(reject, d, t). reject = None \<longrightarrow> 0 < d) calls"
  proof -
    have "stamped_strictly (newQueue now firstID)"
      by (simp add: stamped_strictly_def newQueue_def)
    with distinct have "stamped_strictly ?q"
      by (simp add: stamped_strictly_enqueueAll)
    then have "sorted_wrt (<) (map t_BeginTs (unissuedTasks ?q))"
      by (simp add: stamped_strictly_def)
    with before show ?thesis
      by (simp add: sorted_wrt_iff_nth_less)
  qed
  have order: "map t_payload (unissuedTasks ?q) = map t_payload (admitted calls)"
    by (simp add: payload_enqueueAll newQueue_def)
  from order le less show ?thesis
    by (simp add: constructed_stamps_ignored)
qed

theorem BeginTs_follows_admission_order_witness:
  "unissuedTasks
     (enqueueAll [(None, 3, aTask ''insert''), (Some ''rate limit exceeded'', 0, aTask ''search''),
                  (None, 2, aTask ''delete'')] (newQueue 100 7)) =
     [\<lparr>t_ID = 7, t_BeginTs = 103, t_EndTs = 103, t_payload = ''insert''\<rparr>,
      \<lparr>t_ID = 8, t_BeginTs = 105, t_EndTs = 105, t_payload = ''delete''\<rparr>]
   \<and> t_BeginTs (unissuedTasks
        (enqueueAll [(None, 3, aTask ''insert''), (Some ''rate limit exceeded'', 0, aTask ''search''),
                     (None, 2, aTask ''delete'')] (newQueue 100 7)) ! 0)
     < t_BeginTs (unissuedTasks
        (enqueueAll [(None, 3, aTask ''insert''), (Some ''rate limit exceeded'', 0, aTask ''search''),
                     (None, 2, aTask ''delete'')] (newQueue 100 7)) ! 1)"
proof -
  have run: "unissuedTasks
     (enqueueAll [(None, 3, aTask ''insert''), (Some ''rate limit exceeded'', 0, aTask ''search''),
                  (None, 2, aTask ''delete'')] (newQueue 100 7)) =
     [\<lparr>t_ID = 7, t_BeginTs = 103, t_EndTs = 103, t_payload = ''insert''\<rparr>,
      \<lparr>t_ID = 8, t_BeginTs = 105, t_EndTs = 105, t_payload = ''delete''\<rparr>]"
    by (simp add: queue_Enqueue_rejected queue_Enqueue_accepted newQueue_def aTask_def)
  have "(0::nat) < 1"
    and "1 < length (unissuedTasks
     (enqueueAll [(None, 3, aTask ''insert''), (Some ''rate limit exceeded'', 0, aTask ''search''),
                  (None, 2, aTask ''delete'')] (newQueue 100 7)))"
    unfolding run by simp_all
  from BeginTs_follows_admission_order [OF this, where a = 0 and b = 0 and c = 0]
  have "t_BeginTs (unissuedTasks
        (enqueueAll [(None, 3, aTask ''insert''), (Some ''rate limit exceeded'', 0, aTask ''search''),
                     (None, 2, aTask ''delete'')] (newQueue 100 7)) ! 0)
     < t_BeginTs (unissuedTasks
        (enqueueAll [(None, 3, aTask ''insert''), (Some ''rate limit exceeded'', 0, aTask ''search''),
                     (None, 2, aTask ''delete'')] (newQueue 100 7)) ! 1)"
    by simp
  with run show ?thesis
    by (intro conjI)
qed

subsection \<open>C5: the size of a read result is accounted before it is returned\<close>

text \<open>
  C5. When a Search or a Query ran to the end (healthy proxy, the enqueue accepted, the
  wait without error, a result in the task), the handler measures the task's result with
  \<^verbatim>\<open>proto.Size\<close> and adds that size to the send-bytes counter and, under the key
  \<^verbatim>\<open>ReadResultThroughput\<close>, to the rate collector; the state it returns with the
  result holds both additions.
\<close>

theorem result_size_accounted:
  assumes healthy: "checkHealthy node"
    and sdone: "enqueue srun = None" "waitToFinish srun = None" "result srun = Some sres"
    and qdone: "enqueue qrun = None" "waitToFinish qrun = None" "result qrun = Some qres"
  shows
    "(let r = Search sSize rSize srun srequest node in
        fst r = TaskResult (Some sres) \<and> fst (snd r) = None
        \<and> ProxyReadReqSendBytes (snd (snd r)) = ProxyReadReqSendBytes node @ [rSize sres]
        \<and> rateCol (snd (snd r)) =
            rateCol node @ [(RateType_String RateType_DQLSearch, sr_Nq srequest),
                            (ReadResultThroughput, rSize sres)])
     \<and> (\<exists>node'. Query qSize qrSize qrun qrequest node =
          Some (\<lparr>qres_Status = qres_Status qres, qres_FieldsData = qres_FieldsData qres,
                  qres_CollectionName = []\<rparr>, None, node')
        \<and> ProxyReadReqSendBytes node' = ProxyReadReqSendBytes node @ [qrSize qres]
        \<and> rateCol node' =
            rateCol node @ [(RateType_String RateType_DQLQuery, 1),
                            (ReadResultThroughput, qrSize qres)])"
proof -
  have search: "let r = Search sSize rSize srun srequest node in
        fst r = TaskResult (Some sres) \<and> fst (snd r) = None
        \<and> ProxyReadReqSendBytes (snd (snd r)) = ProxyReadReqSendBytes node @ [rSize sres]
        \<and> rateCol (snd (snd r)) =
            rateCol node @ [(RateType_String RateType_DQLSearch, sr_Nq srequest),
                            (ReadResultThroughput, rSize sres)]"
    using healthy sdone by (simp add: Search_def handler_defs)
  have query: "\<exists>node'. Query qSize qrSize qrun qrequest node =
          Some (\<lparr>qres_Status = qres_Status qres, qres_FieldsData = qres_FieldsData qres,
                  qres_CollectionName = []\<rparr>, None, node')
        \<and> ProxyReadReqSendBytes node' = ProxyReadReqSendBytes node @ [qrSize qres]
        \<and> rateCol node' =
            rateCol node @ [(RateType_String RateType_DQLQuery, 1),
                            (ReadResultThroughput, qrSize qres)]"
    using healthy qdone by (simp add: Query_def handler_defs)
  from search query show ?thesis
    by (intro conjI)
qed

theorem result_size_accounted_witness:
  "(let r = Search (\<lambda>r. 40) (\<lambda>r. 512)
              (doneRun \<lparr>sres_Status = \<lparr>ErrorCode = ErrorCode_Success, Reason = []\<rparr>,
                        sres_NumQueries = 5\<rparr>) aSearchRequest healthyProxy in
      ProxyReadReqSendBytes (snd (snd r)) = [512]
      \<and> rateCol (snd (snd r)) =
          [(RateType_String RateType_DQLSearch, 5), (ReadResultThroughput, 512)])
   \<and> map_option (\<lambda>(resp, e, node'). (ProxyReadReqSendBytes node', rateCol node'))
        (Query (\<lambda>r. 30) (\<lambda>r. 256)
           (doneRun \<lparr>qres_Status = \<lparr>ErrorCode = ErrorCode_Success, Reason = []\<rparr>,
                     qres_FieldsData = [''id''], qres_CollectionName = ''books''\<rparr>)
           aQueryRequest healthyProxy) =
       Some ([256], [(RateType_String RateType_DQLQuery, 1), (ReadResultThroughput, 256)])"
  using result_size_accounted
    [where node = healthyProxy
       and srun = "doneRun \<lparr>sres_Status = \<lparr>ErrorCode = ErrorCode_Success, Reason = []\<rparr>,
                        sres_NumQueries = 5\<rparr>"
       and sres = "\<lparr>sres_Status = \<lparr>ErrorCode = ErrorCode_Success, Reason = []\<rparr>,
                        sres_NumQueries = 5\<rparr>"
       and qrun = "doneRun \<lparr>qres_Status = \<lparr>ErrorCode = ErrorCode_Success, Reason = []\<rparr>,
                     qres_FieldsData = [''id''], qres_CollectionName = ''books''\<rparr>"
       and qres = "\<lparr>qres_Status = \<lparr>ErrorCode = ErrorCode_Success, Reason = []\<rparr>,
                     qres_FieldsData = [''id''], qres_CollectionName = ''books''\<rparr>"
       and sSize = "\<lambda>r. 40" and rSize = "\<lambda>r. 512" and srequest = aSearchRequest
       and qSize = "\<lambda>r. 30" and qrSize = "\<lambda>r. 256" and qrequest = aQueryRequest]
  by (auto simp add: healthyProxy_def doneRun_def checkHealthy_def aSearchRequest_def Let_def)

text \<open>A Search whose task left no result returns \<^verbatim>\<open>nil\<close> and measures nothing.\<close>

lemma Search_nil_result:
  assumes "checkHealthy node" "enqueue run = None" "waitToFinish run = None"
    and "result run = None"
  shows "fst (Search sSize rSize run request node) = TaskResult None"
    and "ProxyReadReqSendBytes (snd (snd (Search sSize rSize run request node))) =
      ProxyReadReqSendBytes node"
  using assms by (simp_all add: Search_def handler_defs)

subsection \<open>C6: a push that invalidates the cache of a collection\<close>

text \<open>
  C6. For every push: the status is Success and the error \<^verbatim>\<open>nil\<close>, whatever the
  cache holds; where there is a cache, \<^verbatim>\<open>RemoveCollection\<close> is applied to it with
  the pushed name if the name is not empty, then \<^verbatim>\<open>RemoveCollectionsByID\<close> with the
  pushed ID if the ID is not zero, and nothing else; \<^verbatim>\<open>removeDMLStream\<close> is applied to
  the channel manager, and the collection's children are deleted from the two
  per-collection histograms, if the message type of the push is \<^verbatim>\<open>DropCollection\<close>,
  and both are as before if it is not.
\<close>

theorem InvalidateCollectionMetaCache_effect:
  "(let r = InvalidateCollectionMetaCache ops nodeID request st;
        st' = snd (snd r);
        drop = (GetMsgType (icr_Base request) = MsgType_DropCollection);
        byName = (if icr_CollectionName request \<noteq> []
                  then RemoveCollection ops (icr_CollectionName request) else (\<lambda>cache. cache));
        byID = (if icr_CollectionID request \<noteq> 0
                then RemoveCollectionsByID ops (icr_CollectionID request) else (\<lambda>cache. cache))
    in fst r = \<lparr>ErrorCode = ErrorCode_Success, Reason = []\<rparr>
       \<and> fst (snd r) = None
       \<and> globalMetaCache st' = map_option (\<lambda>cache. byID (byName cache)) (globalMetaCache st)
       \<and> chMgr st' =
           (if drop then removeDMLStream ops (icr_CollectionID request) (chMgr st) else chMgr st)
       \<and> ProxyCollectionSQLatency st' =
           (if drop
            then ProxyCollectionSQLatency st
                   - {(nodeID, SearchLabel, icr_CollectionName request),
                      (nodeID, QueryLabel, icr_CollectionName request)}
            else ProxyCollectionSQLatency st)
       \<and> ProxyCollectionMutationLatency st' =
           (if drop
            then ProxyCollectionMutationLatency st
                   - {(nodeID, InsertLabel, icr_CollectionName request),
                      (nodeID, DeleteLabel, icr_CollectionName request)}
            else ProxyCollectionMutationLatency st))"
proof (cases "globalMetaCache st")
  case None
  then show ?thesis
    by (auto simp add: InvalidateCollectionMetaCache_def Let_def CleanupCollectionMetrics_def)
next
  case (Some cache)
  then show ?thesis
    by (auto simp add: InvalidateCollectionMetaCache_def Let_def CleanupCollectionMetrics_def)
qed

text \<open>
  On the map cache: a drop of the cached collection "books" (ID 42) removes its entry,
  its streams and its histogram children and keeps those of "films"; a push without a
  base message, for a collection that is not cached, changes nothing and is answered
  with Success all the same.
\<close>

theorem InvalidateCollectionMetaCache_effect_witness:
  "(let r = InvalidateCollectionMetaCache mapOps 1
              \<lparr>icr_Base = Some MsgType_DropCollection, icr_DbName = [],
               icr_CollectionName = ''books'', icr_CollectionID = 42\<rparr> aMetaState
    in fst r = \<lparr>ErrorCode = ErrorCode_Success, Reason = []\<rparr>
       \<and> chMgr (snd (snd r)) 42 = None
       \<and> ProxyCollectionSQLatency (snd (snd r)) = {(1, SearchLabel, ''films'')}
       \<and> ProxyCollectionMutationLatency (snd (snd r)) = {}
       \<and> map_option (\<lambda>cache. (cache ''books'', cache ''films'')) (globalMetaCache (snd (snd r)))
           = Some (None, Some 43))
   \<and> (let r = InvalidateCollectionMetaCache mapOps 1
              \<lparr>icr_Base = None, icr_DbName = [],
               icr_CollectionName = ''missing'', icr_CollectionID = 0\<rparr> aMetaState
    in fst r = \<lparr>ErrorCode = ErrorCode_Success, Reason = []\<rparr>
       \<and> chMgr (snd (snd r)) 42 = Some [''dml-0'']
       \<and> ProxyCollectionSQLatency (snd (snd r)) = ProxyCollectionSQLatency aMetaState
       \<and> map_option (\<lambda>cache. (cache ''books'', cache ''films'')) (globalMetaCache (snd (snd r)))
           = Some (Some 42, Some 43))"
proof -
  have cache: "globalMetaCache aMetaState = Some [''books'' \<mapsto> 42, ''films'' \<mapsto> 43]"
    by (simp add: aMetaState_def)
  from InvalidateCollectionMetaCache_effect
    [of mapOps 1 "\<lparr>icr_Base = Some MsgType_DropCollection, icr_DbName = [],
               icr_CollectionName = ''books'', icr_CollectionID = 42\<rparr>" aMetaState]
  have dropped: "let r = InvalidateCollectionMetaCache mapOps 1
              \<lparr>icr_Base = Some MsgType_DropCollection, icr_DbName = [],
               icr_CollectionName = ''books'', icr_CollectionID = 42\<rparr> aMetaState
    in fst r = \<lparr>ErrorCode = ErrorCode_Success, Reason = []\<rparr>
       \<and> chMgr (snd (snd r)) 42 = None
       \<and> ProxyCollectionSQLatency (snd (snd r)) = {(1, SearchLabel, ''films'')}
       \<and> ProxyCollectionMutationLatency (snd (snd r)) = {}
       \<and> map_option (\<lambda>cache. (cache ''books'', cache ''films'')) (globalMetaCache (snd (snd r)))
           = Some (None, Some 43)"
    by (auto simp add: Let_def cache GetMsgType_def aMetaState_def mapOps_def)
  from InvalidateCollectionMetaCache_effect
    [of mapOps 1 "\<lparr>icr_Base = None, icr_DbName = [],
               icr_CollectionName = ''missing'', icr_CollectionID = 0\<rparr>" aMetaState]
  have kept: "let r = InvalidateCollectionMetaCache mapOps 1
              \<lparr>icr_Base = None, icr_DbName = [],
               icr_CollectionName = ''missing'', icr_CollectionID = 0\<rparr> aMetaState
    in fst r = \<lparr>ErrorCode = ErrorCode_Success, Reason = []\<rparr>
       \<and> chMgr (snd (snd r)) 42 = Some [''dml-0'']
       \<and> ProxyCollectionSQLatency (snd (snd r)) = ProxyCollectionSQLatency aMetaState
       \<and> map_option (\<lambda>cache. (cache ''books'', cache ''films'')) (globalMetaCache (snd (snd r)))
           = Some (Some 42, Some 43)"
    by (auto simp add: Let_def cache GetMsgType_def aMetaState_def mapOps_def)
  from dropped kept show ?thesis
    by (intro conjI)
qed

subsection \<open>C7: SetRates\<close>

text \<open>
  C7. SetRates never returns an error. Its status is Success exactly when the proxy is
  healthy and the limiter took the rates. On an unhealthy proxy it returns the unhealthy
  status and the limiter is the one it was given; on a healthy one the limiter is the one
  \<^verbatim>\<open>setRates\<close> left, and a failed update gives a status of \<^verbatim>\<open>UnexpectedError\<close>
  with the error's message.
\<close>

theorem SetRates_outcomes:
  "(let r = SetRates setRates rates node limiter;
        upd = setRates rates limiter
    in fst (snd r) = None
       \<and> (ErrorCode (fst r) = ErrorCode_Success \<longleftrightarrow> checkHealthy node \<and> fst upd = None)
       \<and> (\<not> checkHealthy node \<longrightarrow> fst r = unhealthyStatus \<and> snd (snd r) = limiter)
       \<and> (checkHealthy node \<longrightarrow> snd (snd r) = snd upd)
       \<and> (checkHealthy node \<and> fst upd = None \<longrightarrow>
            fst r = \<lparr>ErrorCode = ErrorCode_Success, Reason = []\<rparr>)
       \<and> (\<forall>msg. checkHealthy node \<and> fst upd = Some msg \<longrightarrow>
            fst r = \<lparr>ErrorCode = ErrorCode_UnexpectedError, Reason = msg\<rparr>))"
  by (cases "setRates rates limiter")
    (auto simp add: SetRates_def Let_def unhealthyStatus_def split: option.splits)

theorem SetRates_outcomes_witness:
  "SetRates tableSetRates [(RateType_DQLSearch, 1)] healthyProxy [] =
     (\<lparr>ErrorCode = ErrorCode_Success, Reason = []\<rparr>, None, [(RateType_DQLSearch, 1)])
   \<and> SetRates tableSetRates [(RateType_DQLSearch, - 1)] healthyProxy [] =
     (\<lparr>ErrorCode = ErrorCode_UnexpectedError, Reason = ''negative rate''\<rparr>, None, [])
   \<and> SetRates tableSetRates [(RateType_DQLSearch, 1)] abnormalProxy [] =
     (unhealthyStatus, None, [])"
proof -
  note healthy = healthyProxy_healthy and abnormal = abnormalProxy_unhealthy
  have ok: "tableSetRates [(RateType_DQLSearch, 1)] [] = (None, [(RateType_DQLSearch, 1)])"
    and bad: "tableSetRates [(RateType_DQLSearch, - 1)] [] = (Some ''negative rate'', [])"
    by (simp_all add: tableSetRates_def)
  have a: "SetRates tableSetRates [(RateType_DQLSearch, 1)] healthyProxy [] =
     (\<lparr>ErrorCode = ErrorCode_Success, Reason = []\<rparr>, None, [(RateType_DQLSearch, 1)])"
    using SetRates_outcomes
      [of tableSetRates "[(RateType_DQLSearch, 1)]" healthyProxy "[]"] healthy ok
    by (simp add: Let_def prod_eq_iff)
  have b: "SetRates tableSetRates [(RateType_DQLSearch, - 1)] healthyProxy [] =
     (\<lparr>ErrorCode = ErrorCode_UnexpectedError, Reason = ''negative rate''\<rparr>, None, [])"
    using SetRates_outcomes
      [of tableSetRates "[(RateType_DQLSearch, - 1)]" healthyProxy "[]"] healthy bad
    by (simp add: Let_def prod_eq_iff)
  have c: "SetRates tableSetRates [(RateType_DQLSearch, 1)] abnormalProxy [] =
     (unhealthyStatus, None, [])"
    using SetRates_outcomes
      [of tableSetRates "[(RateType_DQLSearch, 1)]" abnormalProxy "[]"] abnormal
    by (simp add: Let_def prod_eq_iff)
  from a b c show ?thesis
    by (intro conjI)
qed

subsection \<open>C8: what an unhealthy proxy still counts\<close>



subsection \<open>C9: CheckHealth\<close>

lemma fn_answered:
  "fn role (Some resp, None) errReasons =
     Some (errReasons @ (if IsHealthy resp then [] else Reasons resp), None)"
  by (simp add: fn_def)

text \<open>
  A healthy answer does mean a healthy proxy and four coordinators that answered without
  an RPC error.
\<close>

lemma fn_no_error:
  "fn role reply errReasons = Some (errReasons', None) \<Longrightarrow> snd reply = None"
  by (auto simp add: fn_def split: option.splits)

lemma runGroup_no_error:
  "runGroup calls (errReasons, err) = Some (errReasons', None) \<Longrightarrow>
   err = None \<and> list_all (\<lambda>(role, reply). snd reply = None) calls"
proof (induction calls arbitrary: errReasons err)
  case Nil
  then show ?case by simp
next
  case (Cons c calls)
  obtain role reply where c: "c = (role, reply)"
    by (cases c)
  from Cons.prems obtain rs e where
    step: "fn role reply errReasons = Some (rs, e)"
    and rest: "runGroup calls (rs, (case err of None \<Rightarrow> e | Some x \<Rightarrow> Some x)) =
      Some (errReasons', None)"
    by (auto simp add: c split: option.splits)
  from Cons.IH [OF rest] have none: "(case err of None \<Rightarrow> e | Some x \<Rightarrow> Some x) = None"
    and tail: "list_all (\<lambda>(role, reply). snd reply = None) calls"
    by simp_all
  from none have "err = None" and "e = None"
    by (simp_all split: option.splits)
  with step have "snd reply = None"
    by (simp add: fn_no_error)
  with \<open>err = None\<close> tail show ?case
    by (simp add: c)
qed

lemma CheckHealth_healthy_only_if:
  assumes ret: "CheckHealth UnHealthReason serverID coords node = Some (resp, e)"
    and ok: "IsHealthy resp"
  shows "checkHealthy node \<and> snd (rootCoord coords) = None \<and> snd (queryCoord coords) = None
    \<and> snd (dataCoord coords) = None \<and> snd (indexCoord coords) = None"
proof -
  from ret ok have healthy: "checkHealthy node"
    by (auto simp add: CheckHealth_def split: if_splits)
  let ?calls = "[(''rootcoord'', rootCoord coords), (''querycoord'', queryCoord coords),
                 (''datacoord'', dataCoord coords), (''indexcoord'', indexCoord coords)]"
  from ret ok healthy obtain errReasons where
    "runGroup ?calls ([], None) = Some (errReasons, None)"
    by (auto simp add: CheckHealth_def split: option.splits if_splits)
  then have "list_all (\<lambda>(role, reply). snd reply = None) ?calls"
    using runGroup_no_error by blast
  with healthy show ?thesis
    by simp
qed

text \<open>
  Whether the group ends without error and without reasons does not depend on the order
  in which the goroutines took the mutex: it is decided by the set of their answers.
\<close>

lemma runGroup_verdict:
  "map_option (\<lambda>(errReasons', err'). err' = None \<and> errReasons' = [])
     (runGroup calls (errReasons, err)) =
   (if list_ex panics calls then None
    else Some (err = None \<and> errReasons = [] \<and> list_all passes calls))"
proof (induction calls arbitrary: errReasons err)
  case Nil
  then show ?case by simp
next
  case (Cons c calls)
  obtain role resp e where c: "c = (role, resp, e)"
    by (cases c)
  show ?case
  proof (cases e)
    case (Some x)
    then show ?thesis
      by (cases err) (simp_all add: c fn_def Cons.IH)
  next
    case None
    show ?thesis
    proof (cases resp)
      case None
      with \<open>e = None\<close> show ?thesis
        by (simp add: c fn_def)
    next
      case (Some r)
      with \<open>e = None\<close> show ?thesis
        by (cases err) (auto simp add: c fn_def Cons.IH)
    qed
  qed
qed

lemma runGroup_verdict_any_order:
  assumes "set calls = set calls'"
  shows "map_option (\<lambda>(errReasons, err). err = None \<and> errReasons = [])
           (runGroup calls ([], None)) =
         map_option (\<lambda>(errReasons, err). err = None \<and> errReasons = [])
           (runGroup calls' ([], None))"
  using assms by (simp add: runGroup_verdict list_ex_iff list_all_iff)

text \<open>
  C9. Stated: \<^verbatim>\<open>IsHealthy\<close> is true if and only if the proxy is healthy and all four
  coordinators answer without error and report \<^verbatim>\<open>IsHealthy = true\<close>. The code does
  not look at the flags again after the calls: it decides on the error of the group and
  on the length of the collected reasons. So when all four coordinators answer, the
  result is healthy exactly when the unhealthy ones among them gave no reason at all, and
  a coordinator that reports \<^verbatim>\<open>IsHealthy = false\<close> with an empty list of reasons is
  passed over.
\<close>

theorem CheckHealth_counts_reasons_only:
  assumes healthy: "checkHealthy node"
    and answered: "rootCoord coords = (Some rootResp, None)" "queryCoord coords = (Some queryResp, None)"
      "dataCoord coords = (Some dataResp, None)" "indexCoord coords = (Some indexResp, None)"
  shows "CheckHealth UnHealthReason serverID coords node =
      Some (let errReasons =
                  concat (map (\<lambda>r. if IsHealthy r then [] else Reasons r) [rootResp, queryResp, dataResp, indexResp])
            in \<lparr>IsHealthy = (errReasons = []), Reasons = errReasons\<rparr>, None)"
  using healthy answered
  by (simp add: CheckHealth_def fn_answered Let_def)

theorem CheckHealth_counts_reasons_only_witness:
  "CheckHealth (\<lambda>role serverID reason. reason) 1
     \<lparr>rootCoord = (Some \<lparr>IsHealthy = False, Reasons = []\<rparr>, None),
      queryCoord = (Some \<lparr>IsHealthy = True, Reasons = []\<rparr>, None),
      dataCoord = (Some \<lparr>IsHealthy = True, Reasons = []\<rparr>, None),
      indexCoord = (Some \<lparr>IsHealthy = True, Reasons = []\<rparr>, None)\<rparr>
     healthyProxy
   = Some (\<lparr>IsHealthy = True, Reasons = []\<rparr>, None)"
proof -
  note healthy = healthyProxy_healthy
  from CheckHealth_counts_reasons_only
    [OF healthy, where rootResp = "\<lparr>IsHealthy = False, Reasons = []\<rparr>"
       and queryResp = "\<lparr>IsHealthy = True, Reasons = []\<rparr>"
       and dataResp = "\<lparr>IsHealthy = True, Reasons = []\<rparr>"
       and indexResp = "\<lparr>IsHealthy = True, Reasons = []\<rparr>"
       and coords = "\<lparr>rootCoord = (Some \<lparr>IsHealthy = False, Reasons = []\<rparr>, None),
          queryCoord = (Some \<lparr>IsHealthy = True, Reasons = []\<rparr>, None),
          dataCoord = (Some \<lparr>IsHealthy = True, Reasons = []\<rparr>, None),
          indexCoord = (Some \<lparr>IsHealthy = True, Reasons = []\<rparr>, None)\<rparr>"
       and UnHealthReason = "\<lambda>role serverID reason. reason" and serverID = 1]
  show ?thesis
    by simp
qed

subsection \<open>C10: the default partition of an insert\<close>

text \<open>
  Insert on a healthy proxy fails to return in one case only: the enqueue was accepted,
  the wait ended without error, and the task has no result to read the status from.
\<close>

lemma Insert_panics_iff:
  "Insert iSize mrun irequest node = None \<longleftrightarrow>
     checkHealthy node \<and> enqueue mrun = None \<and> waitToFinish mrun = None \<and> result mrun = None"
  by (simp add: Insert_def Let_def split: option.splits)

text \<open>
  C10. Insert on a healthy proxy returns, unless the task ended without a result, and
  the one task it has handed to the DML queue by then is the insert task of the request,
  whose partition name is the request's, or the configured default partition name if the
  request's was empty. It waits for that same task if and only if the enqueue was
  accepted.
\<close>

theorem Insert_default_partition:
  assumes healthy: "checkHealthy node"
    and readable: "enqueue mrun = None \<and> waitToFinish mrun = None \<longrightarrow> result mrun \<noteq> None"
  shows "\<exists>resp e node'.
           Insert iSize mrun irequest node = Some (resp, e, node')
           \<and> (let it = \<lparr>it_MsgType = MsgType_Insert, it_MsgID = 0,
                         it_SourceID = NodeID (params node),
                         it_HashValues = ir_HashKeys irequest,
                         it_CollectionName = ir_CollectionName irequest,
                         it_PartitionName =
                           (if ir_PartitionName irequest = [] then DefaultPartitionName (params node)
                            else ir_PartitionName irequest),
                         it_NumRows = ucast (ir_NumRows irequest)\<rparr>
               in sched node' =
                    sched node @ Enqueue dmQueue (InsertTask it)
                      # (if enqueue mrun = None then [WaitToFinish (InsertTask it)] else []))"
proof (cases "enqueue mrun")
  case (Some err)
  with healthy show ?thesis
    by (simp add: Insert_def handler_defs)
next
  case None
  show ?thesis
  proof (cases "waitToFinish mrun")
    case (Some err)
    with healthy \<open>enqueue mrun = None\<close> show ?thesis
      by (simp add: Insert_def handler_defs)
  next
    case None
    with readable \<open>enqueue mrun = None\<close> obtain res where "result mrun = Some res"
      by auto
    with healthy \<open>enqueue mrun = None\<close> \<open>waitToFinish mrun = None\<close> show ?thesis
      by (simp add: Insert_def handler_defs)
  qed
qed

text \<open>
  An insert that succeeds: without a partition name the task goes to "_default", with
  the partition name "p1" it goes to "p1".
\<close>

theorem Insert_default_partition_witness:
  "map_option (\<lambda>(resp, e, node'). sched node')
     (Insert (\<lambda>r. 64) (doneRun aMutationResult) anInsertRequest healthyProxy) =
   Some [Enqueue dmQueue (InsertTask
           \<lparr>it_MsgType = MsgType_Insert, it_MsgID = 0, it_SourceID = 1, it_HashValues = [],
            it_CollectionName = ''books'', it_PartitionName = ''_default'', it_NumRows = 3\<rparr>),
         WaitToFinish (InsertTask
           \<lparr>it_MsgType = MsgType_Insert, it_MsgID = 0, it_SourceID = 1, it_HashValues = [],
            it_CollectionName = ''books'', it_PartitionName = ''_default'', it_NumRows = 3\<rparr>)]
   \<and> map_option (\<lambda>(resp, e, node'). sched node')
     (Insert (\<lambda>r. 64) (doneRun aMutationResult)
        (anInsertRequest\<lparr>ir_PartitionName := ''p1''\<rparr>) healthyProxy) =
   Some [Enqueue dmQueue (InsertTask
           \<lparr>it_MsgType = MsgType_Insert, it_MsgID = 0, it_SourceID = 1, it_HashValues = [],
            it_CollectionName = ''books'', it_PartitionName = ''p1'', it_NumRows = 3\<rparr>),
         WaitToFinish (InsertTask
           \<lparr>it_MsgType = MsgType_Insert, it_MsgID = 0, it_SourceID = 1, it_HashValues = [],
            it_CollectionName = ''books'', it_PartitionName = ''p1'', it_NumRows = 3\<rparr>)]"
proof -
  have readable: "enqueue (doneRun aMutationResult) = None
      \<and> waitToFinish (doneRun aMutationResult) = None \<longrightarrow>
        result (doneRun aMutationResult) \<noteq> None"
    by (simp add: doneRun_def)
  from Insert_default_partition
    [OF healthyProxy_healthy readable, of "\<lambda>r. 64" anInsertRequest]
  have default: "map_option (\<lambda>(resp, e, node'). sched node')
     (Insert (\<lambda>r. 64) (doneRun aMutationResult) anInsertRequest healthyProxy) =
   Some [Enqueue dmQueue (InsertTask
           \<lparr>it_MsgType = MsgType_Insert, it_MsgID = 0, it_SourceID = 1, it_HashValues = [],
            it_CollectionName = ''books'', it_PartitionName = ''_default'', it_NumRows = 3\<rparr>),
         WaitToFinish (InsertTask
           \<lparr>it_MsgType = MsgType_Insert, it_MsgID = 0, it_SourceID = 1, it_HashValues = [],
            it_CollectionName = ''books'', it_PartitionName = ''_default'', it_NumRows = 3\<rparr>)]"
    by (auto simp add: Let_def doneRun_def anInsertRequest_def healthyProxy_def)
  from Insert_default_partition
    [OF healthyProxy_healthy readable, of "\<lambda>r. 64" "anInsertRequest\<lparr>ir_PartitionName := ''p1''\<rparr>"]
  have named: "map_option (\<lambda>(resp, e, node'). sched node')
     (Insert (\<lambda>r. 64) (doneRun aMutationResult)
        (anInsertRequest\<lparr>ir_PartitionName := ''p1''\<rparr>) healthyProxy) =
   Some [Enqueue dmQueue (InsertTask
           \<lparr>it_MsgType = MsgType_Insert, it_MsgID = 0, it_SourceID = 1, it_HashValues = [],
            it_CollectionName = ''books'', it_PartitionName = ''p1'', it_NumRows = 3\<rparr>),
         WaitToFinish (InsertTask
           \<lparr>it_MsgType = MsgType_Insert, it_MsgID = 0, it_SourceID = 1, it_HashValues = [],
            it_CollectionName = ''books'', it_PartitionName = ''p1'', it_NumRows = 3\<rparr>)]"
    by (auto simp add: Let_def doneRun_def anInsertRequest_def healthyProxy_def)
  from default named show ?thesis
    by (intro conjI)
qed

end
